theory Spec2Isabelle
  imports Main "HOL-Library.Word"
begin

section \<open>JavaScript values\<close>

text \<open>
  The request bodies and provider responses handled by \<^verbatim>\<open>backend/server.js\<close> and by the
  React component are JSON values. A Number is \<open>NaN\<close>, an infinity, or a finite decimal
  \<open>Dec m e\<close> standing for \<open>m * 10 ^ e\<close>; the canonical form of a finite number has
  \<open>m\<close> not divisible by ten (and \<open>e = 0\<close> for zero), which fixes the digit string that
  Number::toString prints: a double is written \<open>Dec m e\<close> with the shortest mantissa that
  rounds to it (\<open>is_double\<close> below). The sign of zero is not kept. Strings are lists of
  code units below 256. A missing property reads as \<open>JUndefined\<close>.
\<close>

datatype jsnum = NaN | PosInf | NegInf | Dec int int


datatype jsval =
    JUndefined
  | JNull
  | JBool bool
  | JNum jsnum
  | JStr string
  | JArr "jsval list"
  | JObj "(string \<times> jsval) list"

text \<open>ToBoolean: what \<^verbatim>\<open>!x\<close>, \<^verbatim>\<open>x && y\<close> and \<^verbatim>\<open>x || y\<close> test.\<close>

fun num_truthy :: "jsnum \<Rightarrow> bool" where
  "num_truthy NaN = False"
| "num_truthy (Dec m e) = (m \<noteq> 0)"
| "num_truthy PosInf = True"
| "num_truthy NegInf = True"

fun truthy :: "jsval \<Rightarrow> bool" where
  "truthy JUndefined = False"
| "truthy JNull = False"
| "truthy (JBool b) = b"
| "truthy (JNum n) = num_truthy n"
| "truthy (JStr s) = (s \<noteq> [])"
| "truthy (JArr xs) = True"
| "truthy (JObj ps) = True"

text \<open>\<^verbatim>\<open>a || b\<close> on values.\<close>

definition js_or :: "jsval \<Rightarrow> jsval \<Rightarrow> jsval" where
  "js_or a b = (if truthy a then a else b)"

text \<open>
  Property read \<^verbatim>\<open>v.k\<close>. On \<^verbatim>\<open>undefined\<close> and \<^verbatim>\<open>null\<close> (the \<open>nullish\<close> values) it
  throws a TypeError, which each caller below handles before reading. The keys the program
  reads (\<^verbatim>\<open>id\<close>, \<^verbatim>\<open>status\<close>, \<^verbatim>\<open>output\<close>, \<^verbatim>\<open>error\<close>, \<^verbatim>\<open>message\<close>, \<^verbatim>\<open>audio_base64\<close>,
  \<^verbatim>\<open>inference_time_sec\<close>, \<^verbatim>\<open>jobId\<close>) are properties of no prototype, so on a primitive
  or an array the read gives \<^verbatim>\<open>undefined\<close>, and on an object its own property or
  \<^verbatim>\<open>undefined\<close>.
\<close>

definition nullish :: "jsval \<Rightarrow> bool" where
  "nullish v = (v = JUndefined \<or> v = JNull)"

fun js_prop :: "jsval \<Rightarrow> string \<Rightarrow> jsval" where
  "js_prop (JObj ps) k = (case map_of ps k of None \<Rightarrow> JUndefined | Some v \<Rightarrow> v)"
| "js_prop v k = JUndefined"

subsection \<open>Strings and digits\<close>

text \<open>
  White space and line terminators among the code units below 256: TAB, LF, VT, FF, CR,
  SPACE and NBSP. \<^verbatim>\<open>String.prototype.trim\<close> strips them at both ends; \<^verbatim>\<open>parseInt\<close> and
  \<^verbatim>\<open>parseFloat\<close> skip them at the start.
\<close>

definition js_space :: "char \<Rightarrow> bool" where
  "js_space c = (of_char c \<in> {9, 10, 11, 12, 13, 32, 160 :: nat})"

definition trim :: "string \<Rightarrow> string" where
  "trim s = rev (dropWhile js_space (rev (dropWhile js_space s)))"

definition is_digit :: "char \<Rightarrow> bool" where
  "is_digit c = (48 \<le> (of_char c :: nat) \<and> (of_char c :: nat) \<le> 57)"

definition digit_val :: "char \<Rightarrow> nat" where
  "digit_val c = of_char c - 48"

definition digit_char :: "nat \<Rightarrow> char" where
  "digit_char d =
     (if d = 0 then CHR ''0'' else if d = 1 then CHR ''1'' else if d = 2 then CHR ''2''
      else if d = 3 then CHR ''3'' else if d = 4 then CHR ''4'' else if d = 5 then CHR ''5''
      else if d = 6 then CHR ''6'' else if d = 7 then CHR ''7'' else if d = 8 then CHR ''8''
      else CHR ''9'')"

definition nat_of_digits :: "string \<Rightarrow> nat" where
  "nat_of_digits ds = foldl (\<lambda>a c. 10 * a + digit_val c) 0 ds"

fun digits_of_nat :: "nat \<Rightarrow> string" where
  "digits_of_nat n =
     (if n < 10 then [digit_char n] else digits_of_nat (n div 10) @ [digit_char (n mod 10)])"

declare digits_of_nat.simps [simp del]

text \<open>Hexadecimal digits, for \<^verbatim>\<open>parseInt\<close> on a string that starts with \<^verbatim>\<open>0x\<close>.\<close>

definition hex_val :: "char \<Rightarrow> nat option" where
  "hex_val c =
     (let n = (of_char c :: nat) in
      if 48 \<le> n \<and> n \<le> 57 then Some (n - 48)
      else if 97 \<le> n \<and> n \<le> 102 then Some (n - 87)
      else if 65 \<le> n \<and> n \<le> 70 then Some (n - 55)
      else None)"

definition nat_of_hex :: "string \<Rightarrow> nat" where
  "nat_of_hex ds = foldl (\<lambda>a c. 16 * a + (case hex_val c of Some d \<Rightarrow> d | None \<Rightarrow> 0)) 0 ds"

subsection \<open>Number::toString and ToString\<close>

text \<open>
  Number::toString in radix ten (ECMA-262, 6.1.6.1.20) on the digits \<open>ds\<close> of the
  mantissa, \<open>k\<close> their number and \<open>n = e + k\<close> the position of the decimal point.
\<close>

definition unsigned_to_string :: "nat \<Rightarrow> int \<Rightarrow> string" where
  "unsigned_to_string m e =
     (let ds = digits_of_nat m; k = int (length ds); n = e + k in
      if k \<le> n \<and> n \<le> 21 then ds @ replicate (nat (n - k)) (CHR ''0'')
      else if 0 < n \<and> n \<le> 21 then take (nat n) ds @ ''.'' @ drop (nat n) ds
      else if -6 < n \<and> n \<le> 0 then ''0.'' @ replicate (nat (- n)) (CHR ''0'') @ ds
      else
        (let x = n - 1;
             es = (if x < 0 then ''-'' else ''+'') @ digits_of_nat (nat \<bar>x\<bar>)
         in if k = 1 then ds @ ''e'' @ es
            else take 1 ds @ ''.'' @ drop 1 ds @ ''e'' @ es))"

fun num_to_string :: "jsnum \<Rightarrow> string" where
  "num_to_string NaN = ''NaN''"
| "num_to_string PosInf = ''Infinity''"
| "num_to_string NegInf = ''-Infinity''"
| "num_to_string (Dec m e) =
     (if m = 0 then ''0''
      else if m < 0 then ''-'' @ unsigned_to_string (nat (- m)) e
      else unsigned_to_string (nat m) e)"

text \<open>
  ToString of a value, as applied to the argument of \<^verbatim>\<open>parseInt\<close>, \<^verbatim>\<open>parseFloat\<close>,
  \<^verbatim>\<open>atob\<close> and \<^verbatim>\<open>new Error\<close>. An array joins its elements with commas, \<^verbatim>\<open>undefined\<close> and
  \<^verbatim>\<open>null\<close> elements giving the empty string; an object of JSON gives
  \<^verbatim>\<open>[object Object]\<close>.
\<close>

fun join_comma :: "string list \<Rightarrow> string" where
  "join_comma [] = []"
| "join_comma [s] = s"
| "join_comma (s # t # ss) = s @ '','' @ join_comma (t # ss)"

fun to_string :: "jsval \<Rightarrow> string" where
  "to_string JUndefined = ''undefined''"
| "to_string JNull = ''null''"
| "to_string (JBool b) = (if b then ''true'' else ''false'')"
| "to_string (JNum n) = num_to_string n"
| "to_string (JStr s) = s"
| "to_string (JArr xs) =
     join_comma (map (\<lambda>x. if x = JUndefined \<or> x = JNull then [] else to_string x) xs)"
| "to_string (JObj ps) = ''[object Object]''"

subsection \<open>Rounding to a double\<close>

text \<open>
  A Number is an IEEE 754 binary64 value. \<open>nearest_double N D\<close> rounds the positive
  rational \<open>N / D\<close> to the nearest double, a tie going to the even mantissa. \<open>Some (q, x)\<close>
  is the double \<open>q * 2 ^ x\<close>, with \<open>q < 2 ^ 53\<close> and \<open>x\<close> at least \<open>-1074\<close> (\<open>q = 0\<close> when
  the value underflows to zero); \<open>None\<close> is the overflow to an infinity. \<open>fl\<close> is the
  binary logarithm of \<open>N / D\<close>, rounded down.
\<close>

fun bit_length :: "nat \<Rightarrow> nat" where
  "bit_length n = (if n = 0 then 0 else Suc (bit_length (n div 2)))"

declare bit_length.simps [simp del]

definition round_ratio :: "nat \<Rightarrow> nat \<Rightarrow> nat" where
  "round_ratio a b =
     (let q = a div b; r = a mod b
      in if b < 2 * r \<or> (2 * r = b \<and> odd q) then q + 1 else q)"

definition nearest_double :: "nat \<Rightarrow> nat \<Rightarrow> (nat \<times> int) option" where
  "nearest_double N D =
     (let L = int (bit_length N) - int (bit_length D);
          fl = (if (if 0 \<le> L then D * 2 ^ nat L \<le> N else D \<le> N * 2 ^ nat (- L))
                then L else L - 1);
          x = max (fl - 52) (- 1074);
          q = (if 0 \<le> x then round_ratio N (D * 2 ^ nat x)
               else round_ratio (N * 2 ^ nat (- x)) D);
          qx = (if q = 2 ^ 53 then (2 ^ 52, x + 1) else (q, x))
      in if 1024 < int (bit_length (fst qx)) + snd qx then None else Some qx)"

text \<open>The decimal \<open>s * 10 ^ e\<close> and the double \<open>q * 2 ^ x\<close> as ratios of naturals.\<close>

definition ratio_of_decimal :: "nat \<Rightarrow> int \<Rightarrow> nat \<times> nat" where
  "ratio_of_decimal s e = (if 0 \<le> e then (s * 10 ^ nat e, 1) else (s, 10 ^ nat (- e)))"

definition ratio_of_double :: "nat \<Rightarrow> int \<Rightarrow> nat \<times> nat" where
  "ratio_of_double q x = (if 0 \<le> x then (q * 2 ^ nat x, 1) else (q, 2 ^ nat (- x)))"

text \<open>
  The digits of a double, as Number::toString chooses them (ECMA-262, 6.1.6.1.20, with
  the choice of its second note): the fewest digits \<open>k\<close> for which some \<open>s\<close> of \<open>k\<close> digits
  has \<open>s * 10 ^ (n - k)\<close> rounding to the double, and among those the \<open>s\<close> nearest to it.
  \<open>point_position\<close> is the \<open>n\<close> with \<open>10 ^ (n - 1) \<le> d < 10 ^ n\<close>; \<open>candidate k\<close> tries the
  two \<open>s\<close> next to \<open>d / 10 ^ (n - k)\<close>, the nearer first. Seventeen digits always suffice.
\<close>

definition point_position :: "nat \<Rightarrow> int \<Rightarrow> int" where
  "point_position q x =
     (let (P, Q) = ratio_of_double q x
      in if Q \<le> P then int (length (digits_of_nat (P div Q)))
         else 1 - int (length (digits_of_nat ((Q + P - 1) div P - 1))))"

definition candidate :: "nat \<Rightarrow> nat \<Rightarrow> int \<Rightarrow> int \<Rightarrow> nat option" where
  "candidate k q x n =
     (let (P, Q) = ratio_of_double q x;
          (A, B) = (if n \<le> int k then (P * 10 ^ nat (int k - n), Q)
                    else (P, Q * 10 ^ nat (n - int k)));
          lo = A div B; r = A mod B;
          (first, second) = (if 2 * r < B \<or> (2 * r = B \<and> even lo) then (lo, lo + 1)
                             else (lo + 1, lo));
          rounds = (\<lambda>s. (let (N, D) = ratio_of_decimal s (n - int k)
                          in nearest_double N D = Some (q, x)))
      in if rounds first then Some first else if rounds second then Some second else None)"

text \<open>The number \<open>ds * 10 ^ e\<close> in canonical form: no leading and no trailing zero digit.\<close>

definition mk_dec :: "bool \<Rightarrow> string \<Rightarrow> int \<Rightarrow> jsnum" where
  "mk_dec neg ds e =
     (let ds1 = dropWhile (\<lambda>c. c = CHR ''0'') ds;
          ds2 = rev (dropWhile (\<lambda>c. c = CHR ''0'') (rev ds1))
      in if ds2 = [] then Dec 0 0
         else Dec ((if neg then - 1 else 1) * int (nat_of_digits ds2))
                  (e + int (length ds1 - length ds2)))"

fun shortest :: "nat list \<Rightarrow> bool \<Rightarrow> nat \<Rightarrow> int \<Rightarrow> jsnum" where
  "shortest [] neg q x = NaN"
| "shortest (k # ks) neg q x =
     (case candidate k q x (point_position q x) of
        Some s \<Rightarrow> mk_dec neg (digits_of_nat s) (point_position q x - int k)
      | None \<Rightarrow> shortest ks neg q x)"

text \<open>
  The Number whose mathematical value is nearest to the decimal \<open>m * 10 ^ e\<close>: what
  reading a numeric literal gives. A number is in the form the model uses (\<open>is_double\<close>)
  when it is canonical and rounds to itself.
\<close>

fun to_double :: "jsnum \<Rightarrow> jsnum" where
  "to_double (Dec m e) =
     (if m = 0 then Dec 0 0
      else case (let (N, D) = ratio_of_decimal (nat \<bar>m\<bar>) e in nearest_double N D) of
             None \<Rightarrow> if m < 0 then NegInf else PosInf
           | Some (q, x) \<Rightarrow>
               if q = 0 then Dec 0 0 else shortest [1..<18] (m < 0) q x)"
| "to_double x = x"


subsection \<open>\<^verbatim>\<open>parseInt\<close> and \<^verbatim>\<open>parseFloat\<close>\<close>

text \<open>
  \<^verbatim>\<open>parseInt(string)\<close> with no radix (ECMA-262, 19.2.5): skip leading white space, take a
  sign, take the radix 16 after \<^verbatim>\<open>0x\<close> or \<^verbatim>\<open>0X\<close> and 10 otherwise, and read the longest run
  of digits. \<open>parseInt_math\<close> is the signed integer read, \<open>None\<close> when there is no digit.
\<close>

definition parseInt_math :: "string \<Rightarrow> int option" where
  "parseInt_math inputString =
     (let s = dropWhile js_space inputString;
          neg = (case s of [] \<Rightarrow> False | c # r \<Rightarrow> c = CHR ''-'');
          s = (case s of [] \<Rightarrow> []
               | c # r \<Rightarrow> if c = CHR ''+'' \<or> c = CHR ''-'' then r else s);
          sign = (if neg then - 1 else 1)
      in if take 2 s = ''0x'' \<or> take 2 s = ''0X''
         then (let z = takeWhile (\<lambda>c. hex_val c \<noteq> None) (drop 2 s)
               in if z = [] then None else Some (sign * int (nat_of_hex z)))
         else (let z = takeWhile is_digit s
               in if z = [] then None else Some (sign * int (nat_of_digits z))))"

text \<open>
  The Number \<^verbatim>\<open>parseInt\<close> returns: \<^verbatim>\<open>NaN\<close>, or the integer rounded to a double, which is an
  infinity (\<open>IInf True\<close> the negative one) or a double whose value is the integer
  \<open>IFin n\<close>.
\<close>

datatype jsint = INaN | IInf bool | IFin int

definition round_int :: "int \<Rightarrow> jsint" where
  "round_int z =
     (if z = 0 then IFin 0
      else case nearest_double (nat \<bar>z\<bar>) 1 of
             None \<Rightarrow> IInf (z < 0)
           | Some (q, x) \<Rightarrow>
               IFin ((if z < 0 then - 1 else 1)
                     * int (if 0 \<le> x then q * 2 ^ nat x else q div 2 ^ nat (- x))))"

definition parseInt_str :: "string \<Rightarrow> jsint" where
  "parseInt_str inputString =
     (case parseInt_math inputString of None \<Rightarrow> INaN | Some z \<Rightarrow> round_int z)"

definition parseInt :: "jsval \<Rightarrow> jsint" where
  "parseInt v = parseInt_str (to_string v)"

text \<open>
  \<^verbatim>\<open>parseFloat(string)\<close> (ECMA-262, 19.2.4): skip leading white space and read the longest
  prefix that is a StrDecimalLiteral: a sign, then \<^verbatim>\<open>Infinity\<close>, or digits with an
  optional fraction and an optional exponent part (which needs at least one digit). The
  decimal read is rounded to a double.
\<close>

definition parse_exponent :: "string \<Rightarrow> int" where
  "parse_exponent s =
     (case s of
        [] \<Rightarrow> 0
      | c # r \<Rightarrow>
          if c \<noteq> CHR ''e'' \<and> c \<noteq> CHR ''E'' then 0
          else
            (let neg = (case r of [] \<Rightarrow> False | d # r' \<Rightarrow> d = CHR ''-'');
                 r = (case r of [] \<Rightarrow> []
                      | d # r' \<Rightarrow> if d = CHR ''+'' \<or> d = CHR ''-'' then r' else r);
                 ds = takeWhile is_digit r
             in if ds = [] then 0
                else if neg then - int (nat_of_digits ds) else int (nat_of_digits ds)))"

definition parse_unsigned :: "string \<Rightarrow> (string \<times> int) option" where
  "parse_unsigned s =
     (let ip = takeWhile is_digit s; r = dropWhile is_digit s in
      case r of
        [] \<Rightarrow> if ip = [] then None else Some (ip, 0)
      | c # r1 \<Rightarrow>
          if c = CHR ''.''
          then (let fp = takeWhile is_digit r1; r2 = dropWhile is_digit r1
                in if ip = [] \<and> fp = [] then None
                   else Some (ip @ fp, parse_exponent r2 - int (length fp)))
          else if ip = [] then None else Some (ip, parse_exponent r))"

definition parseFloat_str :: "string \<Rightarrow> jsnum" where
  "parseFloat_str inputString =
     (let t = dropWhile js_space inputString;
          neg = (case t of [] \<Rightarrow> False | c # r \<Rightarrow> c = CHR ''-'');
          u = (case t of [] \<Rightarrow> []
               | c # r \<Rightarrow> if c = CHR ''+'' \<or> c = CHR ''-'' then r else t)
      in if take 8 u = ''Infinity'' then (if neg then NegInf else PosInf)
         else (case parse_unsigned u of
                 None \<Rightarrow> NaN
               | Some (ds, e) \<Rightarrow> to_double (mk_dec neg ds e)))"

definition parseFloat :: "jsval \<Rightarrow> jsnum" where
  "parseFloat v = parseFloat_str (to_string v)"

section \<open>The backend, \<^verbatim>\<open>backend/server.js\<close>\<close>

text \<open>
  What \<^verbatim>\<open>await fetch(...)\<close> gives its caller: the promise rejects (a transport error), or
  it resolves to a response with a status code and a body. \<open>body_json\<close> is what
  \<^verbatim>\<open>response.json()\<close> resolves to, \<open>None\<close> when it rejects because the body is not JSON.
\<close>

record response =
  status_code :: nat
  body_json :: "jsval option"

datatype fetch_result = Fetch_Rejects | Resolves response

text \<open>\<^verbatim>\<open>response.ok\<close>: the status is in the range 200 to 299.\<close>

definition ok :: "response \<Rightarrow> bool" where
  "ok r = (200 \<le> status_code r \<and> status_code r \<le> 299)"

text \<open>
  What a handler sends: \<^verbatim>\<open>res.status(c).json(b)\<close>. \<^verbatim>\<open>res.json\<close> serialises with
  JSON.stringify, which leaves out the properties whose value is \<^verbatim>\<open>undefined\<close>. Console
  output is not part of the model of the backend.
\<close>

record reply =
  code :: nat
  body :: "(string \<times> jsval) list"

definition res_json :: "nat \<Rightarrow> (string \<times> jsval) list \<Rightarrow> reply" where
  "res_json c ps = \<lparr>code = c, body = filter (\<lambda>(k, v). v \<noteq> JUndefined) ps\<rparr>"

text \<open>The \<^verbatim>\<open>catch\<close> block of every handler.\<close>

definition internal_server_error :: reply where
  "internal_server_error = res_json 500 [(''error'', JStr ''Internal server error'')]"

subsection \<open>\<^verbatim>\<open>POST /api/generate\<close>\<close>

text \<open>
  The six properties the handler destructures from \<^verbatim>\<open>req.body\<close>, the object that
  \<^verbatim>\<open>express.json\<close> parsed; a property the body does not have is \<open>JUndefined\<close>.
\<close>

record gen_body =
  b_lyrics :: jsval
  b_tags :: jsval
  b_duration_ms :: jsval
  b_temperature :: jsval
  b_topk :: jsval
  b_cfg_scale :: jsval

text \<open>The \<^verbatim>\<open>input\<close> object the handler builds.\<close>

record input_obj =
  i_lyrics :: string
  i_tags :: string
  i_duration_ms :: jsint
  i_temperature :: jsnum
  i_topk :: jsint
  i_cfg_scale :: jsnum

text \<open>
  The payload the provider receives: the \<^verbatim>\<open>input\<close> object as \<^verbatim>\<open>JSON.stringify\<close> writes it. A
  finite number is written as itself; \<^verbatim>\<open>NaN\<close> and the infinities are written \<^verbatim>\<open>null\<close>
  (\<open>None\<close>).
\<close>

record payload =
  p_lyrics :: string
  p_tags :: string
  p_duration_ms :: "int option"
  p_temperature :: "jsnum option"
  p_topk :: "int option"
  p_cfg_scale :: "jsnum option"

fun stringify_int :: "jsint \<Rightarrow> int option" where
  "stringify_int (IFin n) = Some n"
| "stringify_int a = None"

fun stringify_num :: "jsnum \<Rightarrow> jsnum option" where
  "stringify_num (Dec m e) = Some (Dec m e)"
| "stringify_num x = None"

definition stringify_input :: "input_obj \<Rightarrow> payload" where
  "stringify_input i =
     \<lparr>p_lyrics = i_lyrics i, p_tags = i_tags i,
      p_duration_ms = stringify_int (i_duration_ms i),
      p_temperature = stringify_num (i_temperature i),
      p_topk = stringify_int (i_topk i),
      p_cfg_scale = stringify_num (i_cfg_scale i)\<rparr>"

text \<open>
  The test \<^verbatim>\<open>!v || !v.trim()\<close>. A falsy value is missing; a string is missing when it
  trims to the empty string; on any other truthy JSON value \<^verbatim>\<open>v.trim\<close> is not a function
  and the call throws a TypeError. \<open>Present s\<close> carries \<^verbatim>\<open>v.trim()\<close>.
\<close>

datatype field_check = Throws | Missing | Present string

definition check_required :: "jsval \<Rightarrow> field_check" where
  "check_required v =
     (if \<not> truthy v then Missing
      else case v of
             JStr s \<Rightarrow> if trim s = [] then Missing else Present (trim s)
           | _ \<Rightarrow> Throws)"

text \<open>
  \<^verbatim>\<open>parseInt(v) || d\<close> and \<^verbatim>\<open>parseFloat(v) || d\<close> (\<^verbatim>\<open>NaN\<close> and zero are falsy), and
  \<^verbatim>\<open>Math.min(a, c)\<close> for an integer \<open>c\<close>.
\<close>

fun int_or :: "jsint \<Rightarrow> int \<Rightarrow> jsint" where
  "int_or INaN d = IFin d"
| "int_or (IFin n) d = (if n = 0 then IFin d else IFin n)"
| "int_or (IInf s) d = IInf s"

fun math_min :: "jsint \<Rightarrow> int \<Rightarrow> jsint" where
  "math_min INaN c = INaN"
| "math_min (IFin n) c = IFin (min n c)"
| "math_min (IInf s) c = (if s then IInf True else IFin c)"

definition num_or :: "jsnum \<Rightarrow> jsnum \<Rightarrow> jsnum" where
  "num_or a d = (if num_truthy a then a else d)"

text \<open>
  The handler, given the provider as the function that answers the one fetch of the
  serialised payload. It returns the reply and the list of outbound calls it made.
\<close>

definition generate :: "(payload \<Rightarrow> fetch_result) \<Rightarrow> gen_body \<Rightarrow> reply \<times> payload list" where
  "generate provider b =
    (case check_required (b_lyrics b) of
       Throws \<Rightarrow> (internal_server_error, [])
     | Missing \<Rightarrow> (res_json 400 [(''error'', JStr ''lyrics is required'')], [])
     | Present lyrics_trimmed \<Rightarrow>
    (case check_required (b_tags b) of
       Throws \<Rightarrow> (internal_server_error, [])
     | Missing \<Rightarrow> (res_json 400 [(''error'', JStr ''tags is required'')], [])
     | Present tags_trimmed \<Rightarrow>
         let duration = math_min (int_or (parseInt (b_duration_ms b)) 120000) 240000;
             input = stringify_input
                       \<lparr>i_lyrics = lyrics_trimmed,
                        i_tags = tags_trimmed,
                        i_duration_ms = duration,
                        i_temperature = num_or (parseFloat (b_temperature b)) (Dec 1 0),
                        i_topk = int_or (parseInt (b_topk b)) 50,
                        i_cfg_scale = num_or (parseFloat (b_cfg_scale b)) (Dec 15 (- 1))\<rparr>
         in (case provider input of
               Fetch_Rejects \<Rightarrow> (internal_server_error, [input])
             | Resolves r \<Rightarrow>
                 if \<not> ok r
                 then (res_json 502 [(''error'', JStr ''Failed to submit job to RunPod'')], [input])
                 else
                   (case body_json r of
                      None \<Rightarrow> (internal_server_error, [input])
                    | Some data \<Rightarrow>
                        if nullish data then (internal_server_error, [input])
                        else (res_json 200 [(''jobId'', js_prop data ''id''),
                                            (''status'', js_prop data ''status'')],
                              [input])))))"

subsection \<open>\<^verbatim>\<open>GET /api/status/:jobId\<close>\<close>

text \<open>
  The handler, given the outcome of its one fetch. Reading \<^verbatim>\<open>data.id\<close> throws when the
  body is \<^verbatim>\<open>null\<close>; every throw inside the \<^verbatim>\<open>try\<close> block ends in the \<^verbatim>\<open>catch\<close>.
\<close>

definition status_handler :: "fetch_result \<Rightarrow> reply" where
  "status_handler up =
    (case up of
       Fetch_Rejects \<Rightarrow> internal_server_error
     | Resolves r \<Rightarrow>
         if \<not> ok r then res_json 502 [(''error'', JStr ''Failed to get job status'')]
         else
           (case body_json r of
              None \<Rightarrow> internal_server_error
            | Some data \<Rightarrow>
                if nullish data then internal_server_error
                else
                  let result = [(''jobId'', js_prop data ''id''),
                                (''status'', js_prop data ''status'')];
                      result = (if js_prop data ''status'' = JStr ''COMPLETED''
                                   \<and> truthy (js_prop data ''output'')
                                then result @ [(''output'', js_prop data ''output'')]
                                else result);
                      result = (if js_prop data ''status'' = JStr ''FAILED''
                                then result @ [(''error'',
                                       js_or (js_prop data ''error'') (JStr ''Job failed''))]
                                else result)
                  in res_json 200 result))"

section \<open>The result materializer, \<^verbatim>\<open>base64ToBlob\<close>\<close>

text \<open>
  \<^verbatim>\<open>atob\<close> is the forgiving-base64 decode of the WHATWG Infra standard: remove ASCII white
  space (TAB, LF, FF, CR, SPACE); when the length is a multiple of four remove one or two
  trailing \<^verbatim>\<open>=\<close>; fail when the length is 1 modulo 4 or a character is outside the
  alphabet; decode six bits per character and drop the bits left over. \<open>None\<close> is the
  InvalidCharacterError it throws.
\<close>

definition ascii_space :: "char \<Rightarrow> bool" where
  "ascii_space c = (of_char c \<in> {9, 10, 12, 13, 32 :: nat})"

definition b64_val :: "char \<Rightarrow> nat option" where
  "b64_val c =
     (let n = (of_char c :: nat) in
      if 65 \<le> n \<and> n \<le> 90 then Some (n - 65)
      else if 97 \<le> n \<and> n \<le> 122 then Some (n - 71)
      else if 48 \<le> n \<and> n \<le> 57 then Some (n + 4)
      else if n = 43 then Some 62
      else if n = 47 then Some 63
      else None)"

definition strip_padding :: "string \<Rightarrow> string" where
  "strip_padding d =
     (case rev d of
        [] \<Rightarrow> d
      | c1 # r1 \<Rightarrow>
          if c1 \<noteq> CHR ''='' then d
          else (case r1 of
                  [] \<Rightarrow> rev r1
                | c2 # r2 \<Rightarrow> if c2 = CHR ''='' then rev r2 else rev r1))"

fun sextets_to_bytes :: "nat list \<Rightarrow> nat list" where
  "sextets_to_bytes (a # b # c # d # r) =
     [a * 4 + b div 16, (b mod 16) * 16 + c div 4, (c mod 4) * 64 + d] @ sextets_to_bytes r"
| "sextets_to_bytes [a, b, c] = [a * 4 + b div 16, (b mod 16) * 16 + c div 4]"
| "sextets_to_bytes [a, b] = [a * 4 + b div 16]"
| "sextets_to_bytes r = []"

definition atob :: "string \<Rightarrow> string option" where
  "atob s =
     (let d = filter (\<lambda>c. \<not> ascii_space c) s;
          d = (if length d mod 4 = 0 then strip_padding d else d)
      in if length d mod 4 = 1 then None
         else (case those (map b64_val d) of
                 None \<Rightarrow> None
               | Some vs \<Rightarrow> Some (map char_of (sextets_to_bytes vs))))"

text \<open>A Blob: the bytes of its one \<^verbatim>\<open>Uint8Array\<close> part and its media type.\<close>

record blob =
  blob_bytes :: "8 word list"
  blob_type :: string

text \<open>The loop \<^verbatim>\<open>for (let i = 0; i < bytes.length; i++) arr[i] = bytes.charCodeAt(i)\<close>.\<close>

function fill_bytes :: "string \<Rightarrow> nat \<Rightarrow> 8 word list \<Rightarrow> 8 word list" where
  "fill_bytes bytes i arr =
     (if i < length bytes
      then fill_bytes bytes (Suc i) (arr[i := of_nat (of_char (bytes ! i))])
      else arr)"
  by pat_completeness auto
termination
  by (relation "measure (\<lambda>(bytes, i, arr). length bytes - i)") auto

declare fill_bytes.simps [simp del]

definition base64ToBlob :: "string \<Rightarrow> string \<Rightarrow> blob option" where
  "base64ToBlob base64 mimeType =
     (case atob base64 of
        None \<Rightarrow> None
      | Some bytes \<Rightarrow>
          Some \<lparr>blob_bytes = fill_bytes bytes 0 (replicate (length bytes) 0),
                blob_type = mimeType\<rparr>)"

section \<open>The React component \<^verbatim>\<open>App\<close>\<close>

text \<open>
  The state of the component and of the browser around it. \<open>status\<close>, \<open>error\<close>,
  \<open>audioSrc\<close>, \<open>inferenceTime\<close> and \<open>loading\<close> are the \<^verbatim>\<open>useState\<close> cells, \<open>pollRef\<close> is
  \<^verbatim>\<open>pollRef.current\<close>. \<open>intervals\<close> are the interval timers that are active, each with the
  \<^verbatim>\<open>jobId\<close> its callback closes over; \<open>object_urls\<close> is the browser's store of object URLs
  made by \<^verbatim>\<open>URL.createObjectURL\<close> and not revoked. \<open>requests\<close> lists the fetches issued,
  \<open>materializations\<close> counts the calls of \<^verbatim>\<open>base64ToBlob\<close> and \<open>console_errors\<close> those of
  \<^verbatim>\<open>console.error\<close>.
\<close>

datatype request = Get_Status jsval | Post_Generate string string int

record app =
  lyrics :: string
  tags :: string
  durationMs :: int
  status :: jsval
  error :: jsval
  audioSrc :: "nat option"
  inferenceTime :: jsval
  loading :: bool
  pollRef :: "nat option"
  intervals :: "(nat \<times> jsval) list"
  timer_count :: nat
  object_urls :: "(nat \<times> blob) list"
  requests :: "request list"
  materializations :: nat
  console_errors :: nat

definition initial_app :: app where
  "initial_app =
     \<lparr>lyrics = [], tags = [], durationMs = 120000, status = JNull, error = JNull,
      audioSrc = None, inferenceTime = JNull, loading = False, pollRef = None,
      intervals = [], timer_count = 0, object_urls = [], requests = [],
      materializations = 0, console_errors = 0\<rparr>"

text \<open>
  \<^verbatim>\<open>stopPolling\<close>: \<^verbatim>\<open>if (pollRef.current)\<close> holds for a timer id other than zero;
  \<^verbatim>\<open>clearInterval\<close> removes that timer.
\<close>

definition stopPolling :: "app \<Rightarrow> app" where
  "stopPolling s =
     (case pollRef s of
        None \<Rightarrow> s
      | Some t \<Rightarrow>
          if t = 0 then s
          else s\<lparr>intervals := filter (\<lambda>(i, j). i \<noteq> t) (intervals s), pollRef := None\<rparr>)"

text \<open>
  \<^verbatim>\<open>pollStatus\<close>: \<^verbatim>\<open>setInterval\<close> registers the callback under a fresh id greater than
  zero, which is stored in \<^verbatim>\<open>pollRef.current\<close>.
\<close>

definition pollStatus :: "jsval \<Rightarrow> app \<Rightarrow> app" where
  "pollStatus jobId s =
     (let t = Suc (timer_count s)
      in s\<lparr>timer_count := t, intervals := intervals s @ [(t, jobId)], pollRef := Some t\<rparr>)"

text \<open>The \<^verbatim>\<open>catch\<close> block of the callback: \<^verbatim>\<open>console.error("Poll error:", err)\<close>.\<close>

definition poll_error :: "app \<Rightarrow> app" where
  "poll_error s = s\<lparr>console_errors := Suc (console_errors s)\<rparr>"

text \<open>
  One run of the interval callback, given the outcome of its fetch; the run is taken as
  one step (no other callback runs between its fetch and its end). The test for
  \<^verbatim>\<open>FAILED\<close> follows the one for \<^verbatim>\<open>COMPLETED\<close>; the two exclude each other, and an
  exception of \<^verbatim>\<open>base64ToBlob\<close> leaves the \<^verbatim>\<open>try\<close> block after \<^verbatim>\<open>stopPolling()\<close> and
  \<^verbatim>\<open>setLoading(false)\<close>.
\<close>

definition poll_callback :: "jsval \<Rightarrow> fetch_result \<Rightarrow> app \<Rightarrow> app" where
  "poll_callback jobId res s0 =
    (let s = s0\<lparr>requests := requests s0 @ [Get_Status jobId]\<rparr> in
     case res of
       Fetch_Rejects \<Rightarrow> poll_error s
     | Resolves r \<Rightarrow>
         (case body_json r of
            None \<Rightarrow> poll_error s
          | Some data \<Rightarrow>
              if nullish data then poll_error s
              else
                let s = s\<lparr>status := js_prop data ''status''\<rparr> in
                if js_prop data ''status'' = JStr ''COMPLETED'' \<and> truthy (js_prop data ''output'')
                then
                  let output = js_prop data ''output'';
                      s = (stopPolling s)\<lparr>loading := False\<rparr>
                  in if js_prop output ''status'' = JStr ''success''
                        \<and> truthy (js_prop output ''audio_base64'')
                     then
                       (let s = s\<lparr>materializations := Suc (materializations s)\<rparr> in
                        case base64ToBlob (to_string (js_prop output ''audio_base64''))
                               ''audio/mpeg'' of
                          None \<Rightarrow> poll_error s
                        | Some blob \<Rightarrow>
                            let url = Suc (length (object_urls s))
                            in s\<lparr>object_urls := object_urls s @ [(url, blob)],
                                 audioSrc := Some url,
                                 inferenceTime := js_prop output ''inference_time_sec''\<rparr>)
                     else s\<lparr>error := js_or (js_prop output ''message'')
                                        (JStr ''Generation failed'')\<rparr>
                else if js_prop data ''status'' = JStr ''FAILED''
                then (stopPolling s)\<lparr>loading := False,
                        error := js_or (js_prop data ''error'') (JStr ''Job failed'')\<rparr>
                else s))"

text \<open>A tick of timer \<open>t\<close>: its callback runs only while the timer is active.\<close>

definition tick :: "nat \<Rightarrow> fetch_result \<Rightarrow> app \<Rightarrow> app" where
  "tick t res s =
     (case map_of (intervals s) t of
        None \<Rightarrow> s
      | Some jobId \<Rightarrow> poll_callback jobId res s)"

text \<open>The ticks of timer \<open>t\<close>, one for each fetch outcome of the list, in order.\<close>

fun run :: "nat \<Rightarrow> fetch_result list \<Rightarrow> app \<Rightarrow> app" where
  "run t [] s = s"
| "run t (r # rs) s = run t rs (tick t r s)"

text \<open>
  \<^verbatim>\<open>handleGenerate\<close> up to its \<^verbatim>\<open>await fetch\<close>: the guard, the five state updates,
  \<^verbatim>\<open>stopPolling()\<close>, and the submission.
\<close>

definition handleGenerate_begin :: "app \<Rightarrow> app" where
  "handleGenerate_begin s =
     (if trim (lyrics s) = [] \<or> trim (tags s) = [] then s
      else
        let s1 = s\<lparr>loading := True, error := JNull, audioSrc := None,
                   status := JStr ''SUBMITTING'', inferenceTime := JNull\<rparr>;
            s2 = stopPolling s1
        in s2\<lparr>requests := requests s2
                  @ [Post_Generate (trim (lyrics s)) (trim (tags s)) (durationMs s)]\<rparr>)"

text \<open>
  \<^verbatim>\<open>handleGenerate\<close> after the fetch has settled. \<open>engine_msg\<close> is the message of the
  exception when the engine throws it (the fetch rejects, the body is not JSON, or the
  body is \<^verbatim>\<open>null\<close>); the message of \<^verbatim>\<open>new Error(x)\<close> is ToString of \<open>x\<close>.
\<close>

definition generate_failed :: "string \<Rightarrow> app \<Rightarrow> app" where
  "generate_failed msg s = s\<lparr>error := JStr msg, loading := False, status := JNull\<rparr>"

definition handleGenerate_end :: "string \<Rightarrow> fetch_result \<Rightarrow> app \<Rightarrow> app" where
  "handleGenerate_end engine_msg res s =
     (case res of
        Fetch_Rejects \<Rightarrow> generate_failed engine_msg s
      | Resolves r \<Rightarrow>
          (case body_json r of
             None \<Rightarrow> generate_failed engine_msg s
           | Some data \<Rightarrow>
               if nullish data then generate_failed engine_msg s
               else if \<not> ok r
               then generate_failed
                      (to_string (js_or (js_prop data ''error'') (JStr ''Request failed''))) s
               else pollStatus (js_prop data ''jobId'')
                      (s\<lparr>status := js_or (js_prop data ''status'') (JStr ''IN_QUEUE'')\<rparr>)))"

section \<open>The rate limiter in front of \<^verbatim>\<open>/api/\<close>\<close>











section \<open>A session used in the examples\<close>

text \<open>
  Replies of the status endpoint for job \<^verbatim>\<open>job-1\<close>, as the poller receives them, and the
  state of the component after a form with lyrics and tags has been submitted and the
  gateway has answered with the job handle.
\<close>

definition status_reply :: "(string \<times> jsval) list \<Rightarrow> fetch_result" where
  "status_reply ps = Resolves \<lparr>status_code = 200, body_json = Some (JObj ps)\<rparr>"

definition in_queue :: fetch_result where
  "in_queue = status_reply [(''jobId'', JStr ''job-1''), (''status'', JStr ''IN_QUEUE'')]"

definition in_progress :: fetch_result where
  "in_progress = status_reply [(''jobId'', JStr ''job-1''), (''status'', JStr ''IN_PROGRESS'')]"

definition completed_audio :: "string \<Rightarrow> fetch_result" where
  "completed_audio b =
     status_reply [(''jobId'', JStr ''job-1''), (''status'', JStr ''COMPLETED''),
                   (''output'', JObj [(''status'', JStr ''success''),
                                      (''audio_base64'', JStr b),
                                      (''inference_time_sec'', JNum (Dec 42 0))])]"

definition completed_no_output :: fetch_result where
  "completed_no_output =
     status_reply [(''jobId'', JStr ''job-1''), (''status'', JStr ''COMPLETED'')]"

definition completed_no_audio :: fetch_result where
  "completed_no_audio =
     status_reply [(''jobId'', JStr ''job-1''), (''status'', JStr ''COMPLETED''),
                   (''output'', JObj [(''status'', JStr ''success'')])]"

definition completed_error :: fetch_result where
  "completed_error =
     status_reply [(''jobId'', JStr ''job-1''), (''status'', JStr ''COMPLETED''),
                   (''output'', JObj [(''status'', JStr ''error''),
                                      (''message'', JStr ''out of memory'')])]"

definition failed_job :: fetch_result where
  "failed_job = status_reply [(''jobId'', JStr ''job-1''), (''status'', JStr ''FAILED'')]"

definition submitted :: app where
  "submitted =
     handleGenerate_end []
       (Resolves \<lparr>status_code = 200,
                  body_json = Some (JObj [(''jobId'', JStr ''job-1''),
                                          (''status'', JStr ''IN_QUEUE'')])\<rparr>)
       (handleGenerate_begin (initial_app\<lparr>lyrics := ''la la'', tags := ''pop''\<rparr>))"


text \<open>A request body with lyrics and tags, and the four numeric fields as given.\<close>

definition song_request :: "jsval \<Rightarrow> jsval \<Rightarrow> jsval \<Rightarrow> jsval \<Rightarrow> gen_body" where
  "song_request d t k c =
     \<lparr>b_lyrics = JStr ''la la'', b_tags = JStr ''pop'', b_duration_ms = d,
      b_temperature = t, b_topk = k, b_cfg_scale = c\<rparr>"

section \<open>Properties of the status resolver\<close>



text \<open>
  Claim C7. When the status query to the provider fails in transport (the fetch rejects)
  the resolver answers 500, and when the provider answers with a status outside 200 to
  299 it answers 502; either reply holds an \<^verbatim>\<open>error\<close> message only and no \<^verbatim>\<open>status\<close>
  field, so it is never a job status \<^verbatim>\<open>FAILED\<close>.
\<close>

theorem status_upstream_failure:
  assumes "up = Fetch_Rejects \<or> (\<exists>r. up = Resolves r \<and> \<not> ok r)"
  shows "status_handler up =
           (if up = Fetch_Rejects
            then \<lparr>code = 500, body = [(''error'', JStr ''Internal server error'')]\<rparr>
            else \<lparr>code = 502, body = [(''error'', JStr ''Failed to get job status'')]\<rparr>)
         \<and> map_of (body (status_handler up)) ''status'' = None"
  using assms
  by (auto simp: status_handler_def res_json_def internal_server_error_def)

theorem status_upstream_failure_witness:
  "status_handler (Resolves \<lparr>status_code = 503,
      body_json = Some (JObj [(''status'', JStr ''FAILED'')])\<rparr>)
     = \<lparr>code = 502, body = [(''error'', JStr ''Failed to get job status'')]\<rparr>
   \<and> map_of (body (status_handler (Resolves \<lparr>status_code = 503,
      body_json = Some (JObj [(''status'', JStr ''FAILED'')])\<rparr>))) ''status'' = None"
  using status_upstream_failure [of "Resolves \<lparr>status_code = 503,
      body_json = Some (JObj [(''status'', JStr ''FAILED'')])\<rparr>"]
  by (simp add: ok_def)

section \<open>Properties of the submission gateway\<close>

lemma check_required_blank:
  "v = JUndefined \<or> v = JNull \<or> (\<exists>s. v = JStr s \<and> trim s = []) \<Longrightarrow> check_required v = Missing"
  by (auto simp: check_required_def)

lemma check_required_text:
  "trim s \<noteq> [] \<Longrightarrow> check_required (JStr s) = Present (trim s)"
  by (auto simp: check_required_def trim_def)

text \<open>
  Claim C4, as amended. A request whose \<^verbatim>\<open>lyrics\<close> is missing, \<^verbatim>\<open>null\<close>, empty or only
  white space is answered 400 \<^verbatim>\<open>lyrics is required\<close>; a request whose \<^verbatim>\<open>lyrics\<close> is a
  string with text and whose \<^verbatim>\<open>tags\<close> is missing, \<^verbatim>\<open>null\<close>, empty or only white space is
  answered 400 \<^verbatim>\<open>tags is required\<close>; and whenever either field is missing or blank no
  call to the provider is made.
\<close>

theorem generate_validation:
  "(b_lyrics b = JUndefined \<or> b_lyrics b = JNull \<or> (\<exists>s. b_lyrics b = JStr s \<and> trim s = [])
      \<longrightarrow> generate provider b
            = (\<lparr>code = 400, body = [(''error'', JStr ''lyrics is required'')]\<rparr>, []))
   \<and> ((\<exists>s. b_lyrics b = JStr s \<and> trim s \<noteq> [])
        \<and> (b_tags b = JUndefined \<or> b_tags b = JNull \<or> (\<exists>s. b_tags b = JStr s \<and> trim s = []))
      \<longrightarrow> generate provider b
            = (\<lparr>code = 400, body = [(''error'', JStr ''tags is required'')]\<rparr>, []))
   \<and> ((b_lyrics b = JUndefined \<or> b_lyrics b = JNull \<or> (\<exists>s. b_lyrics b = JStr s \<and> trim s = [])
        \<or> b_tags b = JUndefined \<or> b_tags b = JNull \<or> (\<exists>s. b_tags b = JStr s \<and> trim s = []))
      \<longrightarrow> snd (generate provider b) = [])"
proof (intro conjI impI)
  assume "b_lyrics b = JUndefined \<or> b_lyrics b = JNull \<or> (\<exists>s. b_lyrics b = JStr s \<and> trim s = [])"
  then have "check_required (b_lyrics b) = Missing" by (rule check_required_blank)
  then show "generate provider b
            = (\<lparr>code = 400, body = [(''error'', JStr ''lyrics is required'')]\<rparr>, [])"
    by (simp add: generate_def res_json_def)
next
  assume a: "(\<exists>s. b_lyrics b = JStr s \<and> trim s \<noteq> [])
        \<and> (b_tags b = JUndefined \<or> b_tags b = JNull \<or> (\<exists>s. b_tags b = JStr s \<and> trim s = []))"
  then obtain s where "check_required (b_lyrics b) = Present (trim s)"
    using check_required_text by auto
  moreover have "check_required (b_tags b) = Missing"
    using a by (intro check_required_blank) simp
  ultimately show "generate provider b
            = (\<lparr>code = 400, body = [(''error'', JStr ''tags is required'')]\<rparr>, [])"
    by (simp add: generate_def res_json_def)
next
  assume a: "b_lyrics b = JUndefined \<or> b_lyrics b = JNull \<or> (\<exists>s. b_lyrics b = JStr s \<and> trim s = [])
        \<or> b_tags b = JUndefined \<or> b_tags b = JNull \<or> (\<exists>s. b_tags b = JStr s \<and> trim s = [])"
  then have "check_required (b_lyrics b) = Missing \<or> check_required (b_tags b) = Missing"
    using check_required_blank[of "b_lyrics b"] check_required_blank[of "b_tags b"] by blast
  then show "snd (generate provider b) = []"
    by (auto simp: generate_def split: field_check.splits)
qed

theorem generate_validation_witness:
  "generate (\<lambda>p. Fetch_Rejects)
      \<lparr>b_lyrics = JStr '' '', b_tags = JStr ''pop'', b_duration_ms = JUndefined,
       b_temperature = JUndefined, b_topk = JUndefined, b_cfg_scale = JUndefined\<rparr>
     = (\<lparr>code = 400, body = [(''error'', JStr ''lyrics is required'')]\<rparr>, [])
   \<and> generate (\<lambda>p. Fetch_Rejects)
      \<lparr>b_lyrics = JStr ''la la'', b_tags = JUndefined, b_duration_ms = JUndefined,
       b_temperature = JUndefined, b_topk = JUndefined, b_cfg_scale = JUndefined\<rparr>
     = (\<lparr>code = 400, body = [(''error'', JStr ''tags is required'')]\<rparr>, [])"
  using generate_validation [of
      "\<lparr>b_lyrics = JStr '' '', b_tags = JStr ''pop'', b_duration_ms = JUndefined,
       b_temperature = JUndefined, b_topk = JUndefined, b_cfg_scale = JUndefined\<rparr>"
      "\<lambda>p. Fetch_Rejects"]
    generate_validation [of
      "\<lparr>b_lyrics = JStr ''la la'', b_tags = JUndefined, b_duration_ms = JUndefined,
       b_temperature = JUndefined, b_topk = JUndefined, b_cfg_scale = JUndefined\<rparr>"
      "\<lambda>p. Fetch_Rejects"]
  by (simp add: trim_def js_space_def)

text \<open>
  The claim as stated fails where \<^verbatim>\<open>tags\<close> is missing and \<^verbatim>\<open>lyrics\<close> is a JSON number:
  \<^verbatim>\<open>lyrics.trim\<close> is not a function, the handler's \<^verbatim>\<open>catch\<close> answers 500, and the reply
  does not name the missing field.
\<close>

theorem generate_validation_counterexample:
  "generate (\<lambda>p. Fetch_Rejects)
      \<lparr>b_lyrics = JNum (Dec 5 0), b_tags = JUndefined, b_duration_ms = JUndefined,
       b_temperature = JUndefined, b_topk = JUndefined, b_cfg_scale = JUndefined\<rparr>
     = (\<lparr>code = 500, body = [(''error'', JStr ''Internal server error'')]\<rparr>, [])"
  by (simp add: generate_def check_required_def internal_server_error_def res_json_def)

section \<open>Properties of the poller\<close>

lemma map_of_filter_neq: "map_of (filter (\<lambda>(i, j). i \<noteq> t) xs) t = None"
  by (induction xs) auto

lemma stopPolling_running:
  "pollRef s = Some t \<Longrightarrow> 0 < t \<Longrightarrow>
     stopPolling s = s\<lparr>intervals := filter (\<lambda>(i, j). i \<noteq> t) (intervals s), pollRef := None\<rparr>"
  by (simp add: stopPolling_def)

lemma stopPolling_fields:
  "status (stopPolling s) = status s" "error (stopPolling s) = error s"
  "audioSrc (stopPolling s) = audioSrc s" "object_urls (stopPolling s) = object_urls s"
  "requests (stopPolling s) = requests s" "materializations (stopPolling s) = materializations s"
  "loading (stopPolling s) = loading s" "console_errors (stopPolling s) = console_errors s"
  "inferenceTime (stopPolling s) = inferenceTime s"
  by (simp_all add: stopPolling_def split: option.splits)

text \<open>The three ways a run of the callback ends.\<close>

lemma poll_callback_pending:
  assumes "body_json r = Some data"
    and "\<not> (js_prop data ''status'' = JStr ''COMPLETED'' \<and> truthy (js_prop data ''output''))"
    and "js_prop data ''status'' \<noteq> JStr ''FAILED''"
  shows "poll_callback jobId (Resolves r) s
      = (if nullish data then s\<lparr>requests := requests s @ [Get_Status jobId],
                                 console_errors := Suc (console_errors s)\<rparr>
         else s\<lparr>requests := requests s @ [Get_Status jobId], status := js_prop data ''status''\<rparr>)"
  using assms by (auto simp: poll_callback_def poll_error_def Let_def)

lemma poll_callback_throws:
  assumes "res = Fetch_Rejects \<or> (\<exists>r. res = Resolves r \<and> body_json r = None)"
  shows "poll_callback jobId res s
      = s\<lparr>requests := requests s @ [Get_Status jobId], console_errors := Suc (console_errors s)\<rparr>"
  using assms by (auto simp: poll_callback_def poll_error_def Let_def)

lemma js_prop_nullish: "nullish v \<Longrightarrow> js_prop v k = JUndefined"
  by (auto simp: nullish_def)

lemma poll_callback_failed:
  assumes "body_json r = Some data" and "js_prop data ''status'' = JStr ''FAILED''"
  shows "poll_callback jobId (Resolves r) s
      = (stopPolling (s\<lparr>requests := requests s @ [Get_Status jobId], status := JStr ''FAILED''\<rparr>))
          \<lparr>loading := False, error := js_or (js_prop data ''error'') (JStr ''Job failed'')\<rparr>"
  using assms js_prop_nullish[of data "''status''"]
  by (auto simp: poll_callback_def Let_def)

lemma poll_callback_completed:
  assumes "body_json r = Some data" and "js_prop data ''status'' = JStr ''COMPLETED''"
    and "truthy (js_prop data ''output'')"
  shows "poll_callback jobId (Resolves r) s
      = (let output = js_prop data ''output'';
             s1 = (stopPolling (s\<lparr>requests := requests s @ [Get_Status jobId],
                                    status := JStr ''COMPLETED''\<rparr>))\<lparr>loading := False\<rparr>
         in if js_prop output ''status'' = JStr ''success'' \<and> truthy (js_prop output ''audio_base64'')
            then (case base64ToBlob (to_string (js_prop output ''audio_base64'')) ''audio/mpeg'' of
                    None \<Rightarrow> s1\<lparr>materializations := Suc (materializations s1),
                                 console_errors := Suc (console_errors s1)\<rparr>
                  | Some blob \<Rightarrow>
                      s1\<lparr>materializations := Suc (materializations s1),
                         object_urls := object_urls s1 @ [(Suc (length (object_urls s1)), blob)],
                         audioSrc := Some (Suc (length (object_urls s1))),
                         inferenceTime := js_prop output ''inference_time_sec''\<rparr>)
            else s1\<lparr>error := js_or (js_prop output ''message'') (JStr ''Generation failed'')\<rparr>)"
  using assms js_prop_nullish[of data "''status''"]
  by (auto simp: poll_callback_def Let_def poll_error_def split: option.splits)


lemma tick_inactive: "map_of (intervals s) t = None \<Longrightarrow> tick t res s = s"
  by (simp add: tick_def)

lemma run_inactive: "map_of (intervals s) t = None \<Longrightarrow> run t rs s = s"
  by (induction rs) (simp_all add: tick_inactive)

lemma run_append: "run t (xs @ ys) s = run t ys (run t xs s)"
  by (induction xs arbitrary: s) simp_all

lemma tick_stops:
  assumes "map_of (intervals s) t = Some j" and "pollRef s = Some t" and "0 < t"
    and "body_json r = Some data"
    and "js_prop data ''status'' = JStr ''COMPLETED'' \<and> truthy (js_prop data ''output'')
         \<or> js_prop data ''status'' = JStr ''FAILED''"
  shows "map_of (intervals (tick t (Resolves r) s)) t = None
         \<and> pollRef (tick t (Resolves r) s) = None"
proof -
  have tk: "tick t (Resolves r) s = poll_callback j (Resolves r) s"
    using assms(1) by (simp add: tick_def)
  from assms(5) show ?thesis
  proof
    assume c: "js_prop data ''status'' = JStr ''COMPLETED'' \<and> truthy (js_prop data ''output'')"
    show ?thesis
      unfolding tk using c assms(2,3,4)
      by (simp add: poll_callback_completed stopPolling_running Let_def map_of_filter_neq
               split: option.splits)
  next
    assume f: "js_prop data ''status'' = JStr ''FAILED''"
    show ?thesis
      unfolding tk using f assms(2,3,4)
      by (simp add: poll_callback_failed stopPolling_running map_of_filter_neq)
  qed
qed

lemma tick_keeps_or_stops:
  assumes "map_of (intervals s) t = Some j" and "pollRef s = Some t" and "0 < t"
  shows "(map_of (intervals (tick t res s)) t = Some j \<and> pollRef (tick t res s) = Some t)
       \<or> (map_of (intervals (tick t res s)) t = None \<and> pollRef (tick t res s) = None)"
proof (cases "\<exists>r data. res = Resolves r \<and> body_json r = Some data")
  case False
  then have "res = Fetch_Rejects \<or> (\<exists>r. res = Resolves r \<and> body_json r = None)"
    by (cases res) auto
  then show ?thesis
    using assms by (simp add: tick_def poll_callback_throws)
next
  case True
  then obtain r data where r: "res = Resolves r" "body_json r = Some data" by blast
  show ?thesis
  proof (cases "js_prop data ''status'' = JStr ''COMPLETED'' \<and> truthy (js_prop data ''output'')
         \<or> js_prop data ''status'' = JStr ''FAILED''")
    case True
    then show ?thesis using tick_stops[OF assms r(2)] r(1) by simp
  next
    case False
    then show ?thesis
      using assms r by (simp add: tick_def poll_callback_pending)
  qed
qed

lemma run_keeps_or_stops:
  assumes "map_of (intervals s) t = Some j" and "pollRef s = Some t" and "0 < t"
  shows "(map_of (intervals (run t rs s)) t = Some j \<and> pollRef (run t rs s) = Some t)
       \<or> (map_of (intervals (run t rs s)) t = None \<and> pollRef (run t rs s) = None)"
  using assms
proof (induction rs arbitrary: s)
  case Nil
  then show ?case by simp
next
  case (Cons r rs)
  from tick_keeps_or_stops[OF Cons.prems, of r] show ?case
  proof
    assume "map_of (intervals (tick t r s)) t = Some j \<and> pollRef (tick t r s) = Some t"
    then show ?thesis using Cons.IH[of "tick t r s"] Cons.prems(3) by simp
  next
    assume "map_of (intervals (tick t r s)) t = None \<and> pollRef (tick t r s) = None"
    then show ?thesis by (simp add: run_inactive)
  qed
qed

lemma run_stops:
  assumes "map_of (intervals s) t = Some j" and "pollRef s = Some t" and "0 < t"
    and "body_json r = Some data"
    and "js_prop data ''status'' = JStr ''COMPLETED'' \<and> truthy (js_prop data ''output'')
         \<or> js_prop data ''status'' = JStr ''FAILED''"
  shows "map_of (intervals (run t (pre @ [Resolves r]) s)) t = None
         \<and> pollRef (run t (pre @ [Resolves r]) s) = None"
proof -
  have e: "run t (pre @ [Resolves r]) s = tick t (Resolves r) (run t pre s)"
    by (simp add: run_append)
  from run_keeps_or_stops[OF assms(1,2,3), of pre] show ?thesis
  proof
    assume "map_of (intervals (run t pre s)) t = Some j \<and> pollRef (run t pre s) = Some t"
    then show ?thesis
      unfolding e using tick_stops[of "run t pre s" t j r data] assms(3,4,5) by blast
  next
    assume "map_of (intervals (run t pre s)) t = None \<and> pollRef (run t pre s) = None"
    then show ?thesis unfolding e by (simp add: tick_inactive)
  qed
qed

subsection \<open>The example session and the decoder, evaluated\<close>

lemmas example_defs = status_reply_def in_queue_def in_progress_def completed_audio_def
  completed_no_output_def completed_no_audio_def completed_error_def failed_job_def

lemma trim_la: "trim ''la la'' = ''la la''" "trim ''pop'' = ''pop''"
  by (simp_all add: trim_def js_space_def)

lemma submitted_eq:
  "submitted = \<lparr>lyrics = ''la la'', tags = ''pop'', durationMs = 120000,
      status = JStr ''IN_QUEUE'', error = JNull, audioSrc = None, inferenceTime = JNull,
      loading = True, pollRef = Some 1, intervals = [(1, JStr ''job-1'')], timer_count = 1,
      object_urls = [], requests = [Post_Generate ''la la'' ''pop'' 120000],
      materializations = 0, console_errors = 0\<rparr>"
  by (simp add: submitted_def handleGenerate_end_def handleGenerate_begin_def initial_app_def
      trim_la stopPolling_def pollStatus_def nullish_def ok_def js_or_def Let_def)

lemma fill_bytes_from:
  "i \<le> length bytes \<Longrightarrow> length arr = length bytes \<Longrightarrow>
     fill_bytes bytes i arr = take i arr @ map (\<lambda>c. of_nat (of_char c)) (drop i bytes)"
proof (induction bytes i arr rule: fill_bytes.induct)
  case (1 bytes i arr)
  show ?case
  proof (cases "i < length bytes")
    case True
    have d: "drop i bytes = bytes ! i # drop (Suc i) bytes"
      using True by (simp add: Cons_nth_drop_Suc)
    have "fill_bytes bytes i arr
        = fill_bytes bytes (Suc i) (arr[i := of_nat (of_char (bytes ! i))])"
      using True by (subst fill_bytes.simps) simp
    also have "\<dots> = take (Suc i) (arr[i := of_nat (of_char (bytes ! i))])
         @ map (\<lambda>c. of_nat (of_char c)) (drop (Suc i) bytes)"
      using True "1.prems" by (intro "1.IH") simp_all
    also have "take (Suc i) (arr[i := of_nat (of_char (bytes ! i))])
         = take i arr @ [of_nat (of_char (bytes ! i))]"
      using True "1.prems" by (simp add: take_Suc_conv_app_nth)
    finally show ?thesis by (simp add: d)
  next
    case False
    then show ?thesis using "1.prems" by (subst fill_bytes.simps) simp
  qed
qed

lemma base64ToBlob_eq:
  "base64ToBlob b m =
     map_option (\<lambda>bytes. \<lparr>blob_bytes = map (\<lambda>c. of_nat (of_char c)) bytes, blob_type = m\<rparr>) (atob b)"
  by (simp add: base64ToBlob_def fill_bytes_from split: option.splits)

lemma atob_AAAA: "atob ''AAAA'' = Some [char_of (0::nat), char_of (0::nat), char_of (0::nat)]"
  by (simp add: atob_def ascii_space_def strip_padding_def b64_val_def)

lemma atob_bad: "atob ''!!!'' = None"
  by (simp add: atob_def ascii_space_def strip_padding_def b64_val_def)

lemma blob_AAAA: "base64ToBlob ''AAAA'' ''audio/mpeg'' = Some \<lparr>blob_bytes = [0, 0, 0], blob_type = ''audio/mpeg''\<rparr>"
  by (simp add: base64ToBlob_eq atob_AAAA)

lemma tick_bad:
  "tick 1 (completed_audio ''!!!'') submitted
     = submitted\<lparr>requests := [Post_Generate ''la la'' ''pop'' 120000, Get_Status (JStr ''job-1'')],
         status := JStr ''COMPLETED'', intervals := [], pollRef := None, loading := False,
         materializations := 1, console_errors := 1\<rparr>"
  by (simp add: submitted_eq tick_def example_defs poll_callback_completed stopPolling_def
        base64ToBlob_eq atob_bad)

subsection \<open>Stopping\<close>

lemma truthy_prop_truthy: "truthy (js_prop v k) \<Longrightarrow> truthy v"
  by (cases v) simp_all

lemma tick_pending:
  assumes "map_of (intervals s) t = Some j" and "body_json r = Some data"
    and "js_prop data ''status'' = JStr st" and "st \<noteq> ''COMPLETED''" and "st \<noteq> ''FAILED''"
  shows "tick t (Resolves r) s
      = s\<lparr>requests := requests s @ [Get_Status j], status := JStr st\<rparr>"
proof -
  have "\<not> nullish data" using assms(3) js_prop_nullish[of data "''status''"] by auto
  then show ?thesis
    using assms by (simp add: tick_def poll_callback_pending)
qed

lemma tick_completed_success_count:
  assumes "map_of (intervals s) t = Some j" and "pollRef s = Some t" and "0 < t"
    and "body_json r = Some data" and "js_prop data ''status'' = JStr ''COMPLETED''"
    and "js_prop (js_prop data ''output'') ''status'' = JStr ''success''"
    and "truthy (js_prop (js_prop data ''output'') ''audio_base64'')"
  shows "materializations (tick t (Resolves r) s) = Suc (materializations s)"
proof -
  have o: "truthy (js_prop data ''output'')"
    using assms(7) by (rule truthy_prop_truthy)
  show ?thesis
    using assms o
    by (simp add: tick_def poll_callback_completed stopPolling_fields Let_def split: option.splits)
qed

lemma run_sequence_count:
  assumes "map_of (intervals s) t = Some j" and "pollRef s = Some t" and "0 < t"
    and "body_json r1 = Some d1" and "js_prop d1 ''status'' = JStr ''IN_QUEUE''"
    and "body_json r2 = Some d2" and "js_prop d2 ''status'' = JStr ''IN_PROGRESS''"
    and "body_json r3 = Some d3" and "js_prop d3 ''status'' = JStr ''COMPLETED''"
    and "js_prop (js_prop d3 ''output'') ''status'' = JStr ''success''"
    and "truthy (js_prop (js_prop d3 ''output'') ''audio_base64'')"
  shows "materializations (run t (Resolves r1 # Resolves r2 # Resolves r3 # post) s)
           = Suc (materializations s)"
proof -
  define s1 where "s1 = tick t (Resolves r1) s"
  define s2 where "s2 = tick t (Resolves r2) s1"
  define s3 where "s3 = tick t (Resolves r3) s2"
  have e1: "s1 = s\<lparr>requests := requests s @ [Get_Status j], status := JStr ''IN_QUEUE''\<rparr>"
    unfolding s1_def using assms(1,4,5) by (intro tick_pending) simp_all
  have a1: "map_of (intervals s1) t = Some j"
    using assms(1) by (simp add: e1)
  have e2: "s2 = s1\<lparr>requests := requests s1 @ [Get_Status j], status := JStr ''IN_PROGRESS''\<rparr>"
    unfolding s2_def using a1 assms(6,7) by (intro tick_pending) simp_all
  have a2: "map_of (intervals s2) t = Some j" "pollRef s2 = Some t"
     "materializations s2 = materializations s"
    using assms(1,2) by (simp_all add: e1 e2)
  have m3: "materializations s3 = Suc (materializations s)"
    unfolding s3_def
    using tick_completed_success_count[OF a2(1,2) assms(3,8,9,10,11)] a2(3) by simp
  have o: "truthy (js_prop d3 ''output'')"
    using assms(11) by (rule truthy_prop_truthy)
  have "map_of (intervals s3) t = None"
    unfolding s3_def using tick_stops[OF a2(1,2) assms(3,8)] assms(9) o by simp
  then have "run t post s3 = s3" by (rule run_inactive)
  then show ?thesis
    using m3 by (simp add: s1_def s2_def s3_def)
qed

text \<open>
  Claim C1, as amended. Let timer \<open>t\<close> be the running poller (it is active and
  \<^verbatim>\<open>pollRef.current\<close> holds it). For every sequence of fetch outcomes, once the outcome
  \<open>r\<close> with status \<^verbatim>\<open>COMPLETED\<close> and a truthy output, or with status \<^verbatim>\<open>FAILED\<close>, has been
  reached, the timer is cancelled, \<^verbatim>\<open>pollRef.current\<close> is \<^verbatim>\<open>null\<close>, and the outcomes after
  it change nothing: no further status request is issued. And for the sequence
  \<^verbatim>\<open>IN_QUEUE\<close>, \<^verbatim>\<open>IN_PROGRESS\<close>, \<^verbatim>\<open>COMPLETED\<close> whose output has status \<^verbatim>\<open>success\<close> and a
  truthy \<^verbatim>\<open>audio_base64\<close>, \<^verbatim>\<open>base64ToBlob\<close> is called exactly once, whatever follows.
\<close>

theorem poller_stops_at_terminal:
  assumes "map_of (intervals s) t = Some j" and "pollRef s = Some t" and "0 < t"
  shows "(body_json r = Some data
          \<and> (js_prop data ''status'' = JStr ''COMPLETED'' \<and> truthy (js_prop data ''output'')
             \<or> js_prop data ''status'' = JStr ''FAILED'')
        \<longrightarrow> map_of (intervals (run t (pre @ [Resolves r]) s)) t = None
          \<and> pollRef (run t (pre @ [Resolves r]) s) = None
          \<and> run t (pre @ Resolves r # post) s = run t (pre @ [Resolves r]) s
          \<and> requests (run t (pre @ Resolves r # post) s)
              = requests (run t (pre @ [Resolves r]) s))
     \<and> (body_json r1 = Some d1 \<and> js_prop d1 ''status'' = JStr ''IN_QUEUE''
        \<and> body_json r2 = Some d2 \<and> js_prop d2 ''status'' = JStr ''IN_PROGRESS''
        \<and> body_json r3 = Some d3 \<and> js_prop d3 ''status'' = JStr ''COMPLETED''
        \<and> js_prop (js_prop d3 ''output'') ''status'' = JStr ''success''
        \<and> truthy (js_prop (js_prop d3 ''output'') ''audio_base64'')
        \<longrightarrow> materializations (run t (Resolves r1 # Resolves r2 # Resolves r3 # post) s)
              = Suc (materializations s))"
proof (intro conjI impI)
  assume h: "body_json r = Some data
          \<and> (js_prop data ''status'' = JStr ''COMPLETED'' \<and> truthy (js_prop data ''output'')
             \<or> js_prop data ''status'' = JStr ''FAILED'')"
  have a: "map_of (intervals (run t (pre @ [Resolves r]) s)) t = None
         \<and> pollRef (run t (pre @ [Resolves r]) s) = None"
    using assms(1,2,3) conjunct1[OF h] conjunct2[OF h] by (rule run_stops)
  then show "map_of (intervals (run t (pre @ [Resolves r]) s)) t = None"
    and "pollRef (run t (pre @ [Resolves r]) s) = None" by simp_all
  have "run t (pre @ Resolves r # post) s = run t post (run t (pre @ [Resolves r]) s)"
    using run_append[of t "pre @ [Resolves r]" post s] by simp
  also have "\<dots> = run t (pre @ [Resolves r]) s"
    using a by (simp add: run_inactive)
  finally show "run t (pre @ Resolves r # post) s = run t (pre @ [Resolves r]) s" .
  then show "requests (run t (pre @ Resolves r # post) s)
              = requests (run t (pre @ [Resolves r]) s)" by simp
next
  assume "body_json r1 = Some d1 \<and> js_prop d1 ''status'' = JStr ''IN_QUEUE''
        \<and> body_json r2 = Some d2 \<and> js_prop d2 ''status'' = JStr ''IN_PROGRESS''
        \<and> body_json r3 = Some d3 \<and> js_prop d3 ''status'' = JStr ''COMPLETED''
        \<and> js_prop (js_prop d3 ''output'') ''status'' = JStr ''success''
        \<and> truthy (js_prop (js_prop d3 ''output'') ''audio_base64'')"
  then show "materializations (run t (Resolves r1 # Resolves r2 # Resolves r3 # post) s)
              = Suc (materializations s)"
    using assms run_sequence_count[of s t j r1 d1 r2 d2 r3 d3 post] by blast
qed

theorem poller_stops_at_terminal_witness:
  "requests (run 1 [in_queue, in_progress, failed_job, in_queue] submitted)
     = requests (run 1 [in_queue, in_progress, failed_job] submitted)
   \<and> pollRef (run 1 [in_queue, in_progress, failed_job] submitted) = None
   \<and> materializations (run 1 [in_queue, in_progress, completed_audio ''AAAA'', in_queue] submitted)
     = 1"
  using poller_stops_at_terminal [of submitted 1 "JStr ''job-1''"
      "\<lparr>status_code = 200, body_json = Some (JObj [(''jobId'', JStr ''job-1''), (''status'', JStr ''FAILED'')])\<rparr>"
      "JObj [(''jobId'', JStr ''job-1''), (''status'', JStr ''FAILED'')]"
      "[in_queue, in_progress]" "[in_queue]"
      "\<lparr>status_code = 200, body_json = Some (JObj [(''jobId'', JStr ''job-1''), (''status'', JStr ''IN_QUEUE'')])\<rparr>"
      "JObj [(''jobId'', JStr ''job-1''), (''status'', JStr ''IN_QUEUE'')]"
      "\<lparr>status_code = 200, body_json = Some (JObj [(''jobId'', JStr ''job-1''), (''status'', JStr ''IN_PROGRESS'')])\<rparr>"
      "JObj [(''jobId'', JStr ''job-1''), (''status'', JStr ''IN_PROGRESS'')]"
      "\<lparr>status_code = 200, body_json = Some (JObj [(''jobId'', JStr ''job-1''), (''status'', JStr ''COMPLETED''),
                   (''output'', JObj [(''status'', JStr ''success''),
                                      (''audio_base64'', JStr ''AAAA''),
                                      (''inference_time_sec'', JNum (Dec 42 0))])])\<rparr>"
      "JObj [(''jobId'', JStr ''job-1''), (''status'', JStr ''COMPLETED''),
                   (''output'', JObj [(''status'', JStr ''success''),
                                      (''audio_base64'', JStr ''AAAA''),
                                      (''inference_time_sec'', JNum (Dec 42 0))])]"]
  by (simp add: submitted_eq example_defs)

text \<open>
  The claim as stated fails for a \<^verbatim>\<open>COMPLETED\<close> status that comes without output: the
  callback does not call \<^verbatim>\<open>stopPolling\<close>, the timer stays, and the next tick issues
  another status request. And after \<^verbatim>\<open>IN_QUEUE\<close>, \<^verbatim>\<open>IN_PROGRESS\<close>, a \<^verbatim>\<open>COMPLETED\<close> output
  with status \<^verbatim>\<open>success\<close> but no \<^verbatim>\<open>audio_base64\<close> is not materialized at all: the poller
  reports \<^verbatim>\<open>Generation failed\<close>.
\<close>

theorem poller_completed_no_output_counterexample:
  "pollRef (run 1 [completed_no_output] submitted) = Some 1
   \<and> status (run 1 [completed_no_output] submitted) = JStr ''COMPLETED''
   \<and> requests (run 1 [completed_no_output, completed_no_output] submitted)
     = [Post_Generate ''la la'' ''pop'' 120000,
        Get_Status (JStr ''job-1''), Get_Status (JStr ''job-1'')]
   \<and> materializations (run 1 [in_queue, in_progress, completed_no_audio] submitted) = 0
   \<and> error (run 1 [in_queue, in_progress, completed_no_audio] submitted)
     = JStr ''Generation failed''"
  by (simp add: submitted_eq example_defs tick_def poll_callback_pending nullish_def
        poll_callback_completed stopPolling_def js_or_def)

text \<open>
  Claim C8. When the running poller receives status \<^verbatim>\<open>COMPLETED\<close> with a truthy output
  whose own status is not \<^verbatim>\<open>success\<close>, it stops (timer cancelled, later ticks change
  nothing), clears \<^verbatim>\<open>loading\<close>, and sets the error to \<^verbatim>\<open>output.message\<close> or, when that is
  falsy, to \<^verbatim>\<open>Generation failed\<close>; no blob is decoded, no object URL is made and
  \<^verbatim>\<open>audioSrc\<close> is left as it was.
\<close>

theorem completed_output_failure:
  assumes "map_of (intervals s) t = Some j" and "pollRef s = Some t" and "0 < t"
    and "body_json r = Some data" and "js_prop data ''status'' = JStr ''COMPLETED''"
    and "truthy (js_prop data ''output'')"
    and "js_prop (js_prop data ''output'') ''status'' \<noteq> JStr ''success''"
  shows "pollRef (tick t (Resolves r) s) = None
     \<and> map_of (intervals (tick t (Resolves r) s)) t = None
     \<and> run t rs (tick t (Resolves r) s) = tick t (Resolves r) s
     \<and> loading (tick t (Resolves r) s) = False
     \<and> error (tick t (Resolves r) s)
         = (if truthy (js_prop (js_prop data ''output'') ''message'')
            then js_prop (js_prop data ''output'') ''message'' else JStr ''Generation failed'')
     \<and> audioSrc (tick t (Resolves r) s) = audioSrc s
     \<and> object_urls (tick t (Resolves r) s) = object_urls s
     \<and> materializations (tick t (Resolves r) s) = materializations s"
proof -
  have st: "map_of (intervals (tick t (Resolves r) s)) t = None
         \<and> pollRef (tick t (Resolves r) s) = None"
    using tick_stops[OF assms(1,2,3,4)] assms(5,6) by blast
  have tk: "tick t (Resolves r) s = poll_callback j (Resolves r) s"
    using assms(1) by (simp add: tick_def)
  have rest: "loading (tick t (Resolves r) s) = False
     \<and> error (tick t (Resolves r) s)
         = (if truthy (js_prop (js_prop data ''output'') ''message'')
            then js_prop (js_prop data ''output'') ''message'' else JStr ''Generation failed'')
     \<and> audioSrc (tick t (Resolves r) s) = audioSrc s
     \<and> object_urls (tick t (Resolves r) s) = object_urls s
     \<and> materializations (tick t (Resolves r) s) = materializations s"
    unfolding tk using assms(4,5,6,7)
    by (simp add: poll_callback_completed stopPolling_fields Let_def js_or_def)
  show ?thesis using st rest by (simp add: run_inactive)
qed

theorem completed_output_failure_witness:
  "error (tick 1 completed_error submitted) = JStr ''out of memory''
   \<and> pollRef (tick 1 completed_error submitted) = None
   \<and> audioSrc (tick 1 completed_error submitted) = None
   \<and> object_urls (tick 1 completed_error submitted) = []"
  using completed_output_failure [of submitted 1 "JStr ''job-1''"
      "\<lparr>status_code = 200, body_json = Some (JObj [(''jobId'', JStr ''job-1''), (''status'', JStr ''COMPLETED''),
                   (''output'', JObj [(''status'', JStr ''error''),
                                      (''message'', JStr ''out of memory'')])])\<rparr>"
      "JObj [(''jobId'', JStr ''job-1''), (''status'', JStr ''COMPLETED''),
                   (''output'', JObj [(''status'', JStr ''error''),
                                      (''message'', JStr ''out of memory'')])]"]
  by (simp add: submitted_eq example_defs)

section \<open>Properties of the result materializer\<close>

lemma base64ToBlob_buffer:
  "base64ToBlob b m = Some bl \<Longrightarrow>
     \<exists>bytes. atob b = Some bytes \<and> length (blob_bytes bl) = length bytes \<and> blob_type bl = m"
  by (auto simp: base64ToBlob_eq)

lemma tick_decode_failure:
  assumes "map_of (intervals s) t = Some j" and "pollRef s = Some t" and "0 < t"
    and "body_json r = Some data" and "js_prop data ''status'' = JStr ''COMPLETED''"
    and "js_prop (js_prop data ''output'') ''status'' = JStr ''success''"
    and "truthy (js_prop (js_prop data ''output'') ''audio_base64'')"
    and "atob (to_string (js_prop (js_prop data ''output'') ''audio_base64'')) = None"
  shows "error (tick t (Resolves r) s) = error s
     \<and> audioSrc (tick t (Resolves r) s) = audioSrc s
     \<and> object_urls (tick t (Resolves r) s) = object_urls s
     \<and> console_errors (tick t (Resolves r) s) = Suc (console_errors s)
     \<and> loading (tick t (Resolves r) s) = False
     \<and> pollRef (tick t (Resolves r) s) = None"
proof -
  have o: "truthy (js_prop data ''output'')"
    using assms(7) by (rule truthy_prop_truthy)
  show ?thesis
    using assms o
    by (simp add: tick_def poll_callback_completed stopPolling_fields stopPolling_running
          base64ToBlob_eq Let_def)
qed

text \<open>
  Claim C2. \<^verbatim>\<open>base64ToBlob\<close> decodes \<^verbatim>\<open>AAAA\<close> with media type \<^verbatim>\<open>audio/mpeg\<close> to a buffer
  of three zero bytes tagged with that type, and fails on the malformed input \<^verbatim>\<open>!!!\<close>.
  When the poller receives that malformed payload in a successful output, the exception
  ends in the callback's \<^verbatim>\<open>catch\<close>: the poller has stopped and \<^verbatim>\<open>loading\<close> is cleared, no
  object URL exists and \<^verbatim>\<open>audioSrc\<close> stays \<^verbatim>\<open>null\<close>, the failure is written to the console,
  and the error shown to the caller stays \<^verbatim>\<open>null\<close>.
\<close>

theorem decode_failure_not_surfaced:
  "base64ToBlob ''AAAA'' ''audio/mpeg''
     = Some \<lparr>blob_bytes = [0, 0, 0], blob_type = ''audio/mpeg''\<rparr>
   \<and> base64ToBlob ''!!!'' ''audio/mpeg'' = None
   \<and> tick 1 (completed_audio ''!!!'') submitted
     = submitted\<lparr>requests := [Post_Generate ''la la'' ''pop'' 120000, Get_Status (JStr ''job-1'')],
         status := JStr ''COMPLETED'', intervals := [], pollRef := None, loading := False,
         materializations := 1, console_errors := 1\<rparr>
   \<and> error (tick 1 (completed_audio ''!!!'') submitted) = JNull
   \<and> audioSrc (tick 1 (completed_audio ''!!!'') submitted) = None"
proof -
  have "error (tick 1 (completed_audio ''!!!'') submitted) = JNull"
    and "audioSrc (tick 1 (completed_audio ''!!!'') submitted) = None"
    unfolding tick_bad by (simp_all add: submitted_eq)
  then show ?thesis
    using blob_AAAA tick_bad by (simp add: base64ToBlob_eq atob_bad del: One_nat_def)
qed

section \<open>Properties of \<^verbatim>\<open>handleGenerate\<close>\<close>

lemma tick_good:
  "tick 1 (completed_audio ''AAAA'') submitted
     = submitted\<lparr>requests := [Post_Generate ''la la'' ''pop'' 120000, Get_Status (JStr ''job-1'')],
         status := JStr ''COMPLETED'', intervals := [], pollRef := None, loading := False,
         materializations := 1,
         object_urls := [(1, \<lparr>blob_bytes = [0, 0, 0], blob_type = ''audio/mpeg''\<rparr>)],
         audioSrc := Some 1, inferenceTime := JNum (Dec 42 0)\<rparr>"
  by (simp add: submitted_eq tick_def example_defs poll_callback_completed stopPolling_def
        blob_AAAA)

text \<open>
  Claim C9, as amended. When a new generation request is started (lyrics and tags hold
  text), then before the submission is issued the displayed result handle \<^verbatim>\<open>audioSrc\<close> is
  reset to \<^verbatim>\<open>null\<close> and the timer held in \<^verbatim>\<open>pollRef.current\<close> is cancelled, so that no
  timer is left when that was the only active one; the submission is the next request
  issued. The object URLs made for earlier results stay in the browser's store.
\<close>

theorem new_request_clears_handle_and_timer:
  assumes "trim (lyrics s) \<noteq> []" and "trim (tags s) \<noteq> []" and "pollRef s \<noteq> Some 0"
  shows "audioSrc (handleGenerate_begin s) = None
     \<and> pollRef (handleGenerate_begin s) = None
     \<and> intervals (handleGenerate_begin s)
         = (case pollRef s of None \<Rightarrow> intervals s
            | Some t \<Rightarrow> filter (\<lambda>(i, j). i \<noteq> t) (intervals s))
     \<and> (pollRef s = Some t \<longrightarrow> map_of (intervals (handleGenerate_begin s)) t = None)
     \<and> (set (map fst (intervals s)) \<subseteq> set_option (pollRef s)
          \<longrightarrow> intervals (handleGenerate_begin s) = [])
     \<and> requests (handleGenerate_begin s)
         = requests s @ [Post_Generate (trim (lyrics s)) (trim (tags s)) (durationMs s)]
     \<and> object_urls (handleGenerate_begin s) = object_urls s"
proof (cases "pollRef s")
  case None
  then show ?thesis
    using assms by (simp add: handleGenerate_begin_def stopPolling_def Let_def)
next
  case (Some u)
  then have u: "u \<noteq> 0" using assms(3) by auto
  have f: "set (map fst (intervals s)) \<subseteq> {u} \<Longrightarrow> filter (\<lambda>(i, j). i \<noteq> u) (intervals s) = []"
    by (auto simp: filter_empty_conv)
  show ?thesis
    using assms Some u f
    by (simp add: handleGenerate_begin_def stopPolling_def Let_def map_of_filter_neq)
qed

theorem new_request_clears_handle_and_timer_witness:
  "audioSrc (tick 1 (completed_audio ''AAAA'') submitted) = Some 1
   \<and> audioSrc (handleGenerate_begin (tick 1 (completed_audio ''AAAA'') submitted)) = None
   \<and> pollRef submitted = Some 1
   \<and> pollRef (handleGenerate_begin submitted) = None
   \<and> intervals (handleGenerate_begin submitted) = []"
  using new_request_clears_handle_and_timer [of "tick 1 (completed_audio ''AAAA'') submitted" 1]
    new_request_clears_handle_and_timer [of submitted 1]
proof -
  have "trim (lyrics (tick 1 (completed_audio ''AAAA'') submitted)) \<noteq> []"
    and "trim (tags (tick 1 (completed_audio ''AAAA'') submitted)) \<noteq> []"
    and "pollRef (tick 1 (completed_audio ''AAAA'') submitted) \<noteq> Some 0"
    and "audioSrc (tick 1 (completed_audio ''AAAA'') submitted) = Some 1"
    unfolding tick_good by (simp_all add: submitted_eq trim_la)
  moreover have "trim (lyrics submitted) \<noteq> []" and "trim (tags submitted) \<noteq> []"
    and "pollRef submitted \<noteq> Some 0" and "pollRef submitted = Some 1"
    and "set (map fst (intervals submitted)) \<subseteq> set_option (pollRef submitted)"
    by (simp_all add: submitted_eq trim_la)
  ultimately show ?thesis
    using new_request_clears_handle_and_timer [of "tick 1 (completed_audio ''AAAA'') submitted" 1]
      new_request_clears_handle_and_timer [of submitted 1]
    by blast
qed

text \<open>
  The claim as stated fails for the object URL of the previous result: \<^verbatim>\<open>handleGenerate\<close>
  forgets it but never revokes it, so it is still registered after the new request has
  begun.
\<close>

theorem stale_object_url_counterexample:
  "audioSrc (tick 1 (completed_audio ''AAAA'') submitted) = Some 1
   \<and> object_urls (handleGenerate_begin (tick 1 (completed_audio ''AAAA'') submitted))
     = [(1, \<lparr>blob_bytes = [0, 0, 0], blob_type = ''audio/mpeg''\<rparr>)]"
proof -
  have "trim (lyrics (tick 1 (completed_audio ''AAAA'') submitted)) \<noteq> []"
    and "trim (tags (tick 1 (completed_audio ''AAAA'') submitted)) \<noteq> []"
    and "audioSrc (tick 1 (completed_audio ''AAAA'') submitted) = Some 1"
    and "object_urls (tick 1 (completed_audio ''AAAA'') submitted)
          = [(1, \<lparr>blob_bytes = [0, 0, 0], blob_type = ''audio/mpeg''\<rparr>)]"
    unfolding tick_good by (simp_all add: submitted_eq trim_la)
  then show ?thesis
    by (simp add: handleGenerate_begin_def stopPolling_fields Let_def del: One_nat_def)
qed

section \<open>Properties of the rate limiter\<close>







section \<open>Properties of the numeric fields\<close>

subsection \<open>Digits\<close>


lemma is_digit_not_special:
  assumes "is_digit c"
  shows "\<not> js_space c" and "c \<noteq> CHR ''+''" and "c \<noteq> CHR ''-''" and "c \<noteq> CHR ''.''"
    and "c \<noteq> CHR ''e''" and "c \<noteq> CHR ''E''" and "c \<noteq> CHR ''x''" and "c \<noteq> CHR ''X''"
    and "c \<noteq> CHR ''I''"
  using assms by (auto simp: is_digit_def js_space_def)




lemma nat_of_digits_snoc: "nat_of_digits (ds @ [c]) = 10 * nat_of_digits ds + digit_val c"
  by (simp add: nat_of_digits_def)





lemma nat_of_digits_zeros: "nat_of_digits (ds @ replicate k (CHR ''0'')) = nat_of_digits ds * 10 ^ k"
proof (induction k)
  case 0
  then show ?case by simp
next
  case (Suc k)
  have "ds @ replicate (Suc k) (CHR ''0'') = (ds @ replicate k (CHR ''0'')) @ [CHR ''0'']"
    by (simp add: replicate_append_same)
  then show ?case
    using Suc by (simp only: nat_of_digits_snoc) (simp add: digit_val_def)
qed



lemma parseInt_math_digits:
  assumes "ds \<noteq> []" and "\<forall>c \<in> set ds. is_digit c"
  shows "parseInt_math ds = Some (int (nat_of_digits ds))"
    and "parseInt_math (CHR ''-'' # ds) = Some (- int (nat_of_digits ds))"
proof -
  obtain c r where ds: "ds = c # r" using assms(1) by (cases ds) auto
  then have c: "is_digit c" using assms(2) by simp
  have nx: "take 2 ds \<noteq> ''0x''" "take 2 ds \<noteq> ''0X''"
    using assms(2) ds is_digit_not_special(7,8) by (cases r; auto)+
  have tw: "takeWhile is_digit ds = ds"
    using assms(2) by (simp add: takeWhile_eq_all_conv)
  have sp: "dropWhile js_space ds = ds"
    using ds is_digit_not_special(1)[OF c] by simp
  have neg: "(case ds of [] \<Rightarrow> False | c # r \<Rightarrow> c = CHR ''-'') = False"
    using ds is_digit_not_special(3)[OF c] by simp
  have rest: "(case ds of [] \<Rightarrow> [] | c # r \<Rightarrow> if c = CHR ''+'' \<or> c = CHR ''-'' then r else ds) = ds"
    using ds is_digit_not_special(2,3)[OF c] by simp
  show "parseInt_math ds = Some (int (nat_of_digits ds))"
    unfolding parseInt_math_def sp neg rest Let_def tw
    using nx assms(1) by simp
  have m: "dropWhile js_space (CHR ''-'' # ds) = CHR ''-'' # ds"
    by (simp add: js_space_def)
  show "parseInt_math (CHR ''-'' # ds) = Some (- int (nat_of_digits ds))"
    unfolding parseInt_math_def m Let_def list.case
    using nx assms(1) by (simp add: tw del: takeWhile_eq_all_conv)
qed




lemma parseInt_non_numeric:
  "parseInt JUndefined = INaN" "parseInt JNull = INaN" "parseInt (JBool x) = INaN"
  "parseInt (JObj ps) = INaN" "parseInt (JNum NaN) = INaN" "parseInt (JNum PosInf) = INaN"
  "parseInt (JNum NegInf) = INaN" "parseInt (JStr []) = INaN"
  by (simp_all add: parseInt_def parseInt_str_def parseInt_math_def js_space_def is_digit_def)


subsection \<open>Rounding an integer to a double\<close>

lemma bit_length_bounds:
  "0 < n \<Longrightarrow> 2 ^ (bit_length n - 1) \<le> n \<and> n < 2 ^ bit_length n"
proof (induction n rule: bit_length.induct)
  case (1 n)
  show ?case
  proof (cases "n div 2 = 0")
    case True
    then have "n = 1" using "1.prems" by linarith
    then show ?thesis
      by (subst (1 2) bit_length.simps) (simp add: bit_length.simps)
  next
    case False
    then have ih: "2 ^ (bit_length (n div 2) - 1) \<le> n div 2" "n div 2 < 2 ^ bit_length (n div 2)"
      using "1.IH" "1.prems" by simp_all
    have pos: "0 < bit_length (n div 2)"
      using False by (subst bit_length.simps) simp
    have b: "bit_length n = Suc (bit_length (n div 2))"
      using "1.prems" by (subst bit_length.simps) simp
    have "2 ^ (bit_length n - 1) = 2 * 2 ^ (bit_length (n div 2) - 1)"
      using pos b by (cases "bit_length (n div 2)") simp_all
    also have "\<dots> \<le> 2 * (n div 2)" using ih(1) by simp
    also have "\<dots> \<le> n" by simp
    finally have lo: "2 ^ (bit_length n - 1) \<le> n" .
    have "n < 2 * (n div 2) + 2" by linarith
    also have "\<dots> \<le> 2 * 2 ^ bit_length (n div 2)" using ih(2) by simp
    finally have "n < 2 ^ bit_length n" by (simp add: b)
    then show ?thesis using lo by simp
  qed
qed

lemma bit_length_pos: "0 < n \<Longrightarrow> 0 < bit_length n"
  by (subst bit_length.simps) simp

lemma bit_length_le: "n < 2 ^ k \<Longrightarrow> bit_length n \<le> k"
proof (cases "n = 0")
  case True
  then show ?thesis by (simp add: bit_length.simps)
next
  case False
  assume "n < 2 ^ k"
  moreover have "2 ^ (bit_length n - 1) \<le> n"
    using bit_length_bounds[of n] False by blast
  ultimately have "(2::nat) ^ (bit_length n - 1) < 2 ^ k" by linarith
  then have "bit_length n - 1 < k"
    using power_less_imp_less_exp[of "2::nat" "bit_length n - 1" k] by simp
  then show ?thesis by linarith
qed

lemma bit_length_ge: "2 ^ k \<le> n \<Longrightarrow> k < bit_length n"
proof -
  assume a: "2 ^ k \<le> n"
  then have "0 < n" by (metis less_le_trans zero_less_numeral zero_less_power)
  then have "n < 2 ^ bit_length n"
    using bit_length_bounds[of n] by blast
  then have "(2::nat) ^ k < 2 ^ bit_length n" using a by linarith
  then show ?thesis
    using power_less_imp_less_exp[of "2::nat" k "bit_length n"] by simp
qed

lemma bit_length_one: "bit_length 1 = 1"
  by (simp add: bit_length.simps)

lemma round_ratio_one: "round_ratio a 1 = a"
  by (simp add: round_ratio_def)

lemma round_ratio_ge: "0 < b \<Longrightarrow> a div b \<le> round_ratio a b"
  by (simp add: round_ratio_def Let_def)

lemma round_ratio_le: "0 < b \<Longrightarrow> round_ratio a b \<le> a div b + 1"
  by (simp add: round_ratio_def Let_def)


lemma nearest_double_small:
  assumes "0 < N" and "N < 2 ^ 53"
  shows "nearest_double N 1 = Some (N * 2 ^ (53 - bit_length N), - int (53 - bit_length N))"
proof -
  define b where "b = bit_length N"
  have b: "0 < b" "b \<le> 53" "2 ^ (b - 1) \<le> N" "N < 2 ^ b"
    using bit_length_pos[OF assms(1)] bit_length_le[OF assms(2)] bit_length_bounds[OF assms(1)]
    by (simp_all add: b_def)
  have L: "int (bit_length N) - int (bit_length 1) = int (b - 1)"
    unfolding bit_length_one using b(1) by (simp add: b_def)
  have c: "(if (if 0 \<le> int (b - 1) then 1 * 2 ^ nat (int (b - 1)) \<le> N
                 else 1 \<le> N * 2 ^ nat (- int (b - 1)))
            then int (b - 1) else int (b - 1) - 1) = int (b - 1)"
    using b(3) by simp
  have x: "max (int (b - 1) - 52) (- 1074) = - int (53 - b)"
    using b(1,2) by simp
  have q: "(if 0 \<le> - int (53 - b) then round_ratio N (1 * 2 ^ nat (- int (53 - b)))
            else round_ratio (N * 2 ^ nat (- (- int (53 - b)))) 1) = N * 2 ^ (53 - b)"
  proof (cases "53 \<le> b")
    case True
    then show ?thesis by (simp add: round_ratio_def)
  next
    case False
    then have "nat (53 - int b) = 53 - b" by linarith
    then show ?thesis using False by (simp add: round_ratio_def)
  qed
  have "N * 2 ^ (53 - b) < 2 ^ b * 2 ^ (53 - b)"
    using b(4) by simp
  also have "\<dots> = 2 ^ 53"
    using b(2) by (simp add: power_add [symmetric])
  finally have lt: "N * 2 ^ (53 - b) < 2 ^ 53" .
  then have ne: "N * 2 ^ (53 - b) \<noteq> 2 ^ 53" by simp
  have bl: "bit_length (N * 2 ^ (53 - b)) \<le> 53"
    using lt by (rule bit_length_le)
  have "nearest_double N 1 = Some (N * 2 ^ (53 - b), - int (53 - b))"
    unfolding nearest_double_def Let_def L c x q
    using bl ne by simp
  then show ?thesis by (simp add: b_def)
qed

lemma round_int_exact:
  assumes "\<bar>z\<bar> < 2 ^ 53"
  shows "round_int z = IFin z"
proof (cases "z = 0")
  case True
  then show ?thesis by (simp add: round_int_def)
next
  case False
  define N where "N = nat \<bar>z\<bar>"
  have N: "0 < N" "N < 2 ^ 53"
    using False assms by (simp_all add: N_def nat_less_iff)
  define k where "k = 53 - bit_length N"
  have nd: "nearest_double N 1 = Some (N * 2 ^ k, - int k)"
    unfolding k_def by (rule nearest_double_small[OF N])
  have v: "(if 0 \<le> - int k then N * 2 ^ k * 2 ^ nat (- int k)
            else N * 2 ^ k div 2 ^ nat (- (- int k))) = N"
    by simp
  have "round_int z = IFin ((if z < 0 then - 1 else 1) * int N)"
    unfolding round_int_def N_def [symmetric] nd
    using False by (simp only: v option.case prod.case if_False)
  then show ?thesis by (simp add: N_def)
qed

lemma nearest_double_large_eq:
  assumes "2 ^ 53 \<le> N"
  shows "nearest_double N 1
      = (let q = round_ratio N (2 ^ (bit_length N - 53));
             qx = (if q = 2 ^ 53 then (2 ^ 52, int (bit_length N - 53) + 1)
                   else (q, int (bit_length N - 53)))
         in if 1024 < int (bit_length (fst qx)) + snd qx then None else Some qx)"
    and "2 ^ 52 \<le> round_ratio N (2 ^ (bit_length N - 53))"
proof -
  define b where "b = bit_length N"
  have pos: "0 < N" using assms(1) by (metis less_le_trans zero_less_numeral zero_less_power)
  have b: "53 < b" "2 ^ (b - 1) \<le> N"
    using bit_length_ge[OF assms(1)] bit_length_bounds[OF pos] by (simp_all add: b_def)
  have L: "int (bit_length N) - int (bit_length 1) = int (b - 1)"
    unfolding bit_length_one using b(1) by (simp add: b_def)
  have c: "(if (if 0 \<le> int (b - 1) then 1 * 2 ^ nat (int (b - 1)) \<le> N
                 else 1 \<le> N * 2 ^ nat (- int (b - 1)))
            then int (b - 1) else int (b - 1) - 1) = int (b - 1)"
    using b(2) by simp
  have x: "max (int (b - 1) - 52) (- 1074) = int (b - 53)"
    using b(1) by simp
  define q0 where "q0 = round_ratio N (2 ^ (b - 53))"
  have q: "(if 0 \<le> int (b - 53) then round_ratio N (1 * 2 ^ nat (int (b - 53)))
            else round_ratio (N * 2 ^ nat (- int (b - 53))) 1) = q0"
    by (simp add: q0_def)
  have e: "52 + (b - 53) = b - 1" using b(1) by linarith
  have "(2::nat) ^ 52 * 2 ^ (b - 53) = 2 ^ (52 + (b - 53))"
    by (rule power_add [symmetric])
  then have "(2::nat) ^ 52 * 2 ^ (b - 53) = 2 ^ (b - 1)"
    by (simp only: e)
  then have "(2::nat) ^ 52 * 2 ^ (b - 53) \<le> N" using b(2) by simp
  then have "(2::nat) ^ 52 \<le> N div 2 ^ (b - 53)"
    by (simp add: less_eq_div_iff_mult_less_eq)
  also have "\<dots> \<le> q0"
    unfolding q0_def by (rule round_ratio_ge) simp
  finally show "2 ^ 52 \<le> round_ratio N (2 ^ (bit_length N - 53))"
    by (simp add: q0_def b_def)
  show "nearest_double N 1
      = (let q = round_ratio N (2 ^ (bit_length N - 53));
             qx = (if q = 2 ^ 53 then (2 ^ 52, int (bit_length N - 53) + 1)
                   else (q, int (bit_length N - 53)))
         in if 1024 < int (bit_length (fst qx)) + snd qx then None else Some qx)"
    unfolding nearest_double_def Let_def L c x q
    unfolding q0_def b_def by (rule refl)
qed


lemma nearest_double_overflow:
  assumes "2 ^ 1024 \<le> N"
  shows "nearest_double N 1 = None"
proof -
  have "(2::nat) ^ 53 \<le> 2 ^ 1024" by simp
  then have N: "2 ^ 53 \<le> N" using assms by linarith
  have b: "1024 < bit_length N" by (rule bit_length_ge[OF assms])
  have q: "52 < bit_length (round_ratio N (2 ^ (bit_length N - 53)))"
    by (rule bit_length_ge[OF nearest_double_large_eq(2)[OF N]])
  have p: "52 < bit_length (2 ^ 52)"
    by (rule bit_length_ge) simp
  show ?thesis
    unfolding nearest_double_large_eq(1)[OF N] Let_def
    using b q p by (simp only: fst_conv snd_conv split: if_splits) auto
qed

lemma round_int_overflow:
  assumes "2 ^ 1024 \<le> \<bar>z\<bar>"
  shows "round_int z = IInf (z < 0)"
proof -
  have "(2::int) ^ 1024 \<le> int (nat \<bar>z\<bar>)" using assms by simp
  then have "2 ^ 1024 \<le> nat \<bar>z\<bar>"
    by (metis of_nat_le_iff of_nat_numeral of_nat_power)
  then have "nearest_double (nat \<bar>z\<bar>) 1 = None" by (rule nearest_double_overflow)
  moreover have "z \<noteq> 0" using assms by auto
  ultimately show ?thesis by (simp add: round_int_def)
qed





subsection \<open>\<^verbatim>\<open>parseFloat\<close> reads back what Number::toString prints\<close>












lemma parseFloat_non_numeric:
  "parseFloat JUndefined = NaN" "parseFloat JNull = NaN" "parseFloat (JBool x) = NaN"
  "parseFloat (JObj ps) = NaN" "parseFloat (JStr []) = NaN"
  by (simp_all add: parseFloat_def parseFloat_str_def parse_unsigned_def js_space_def is_digit_def)

subsection \<open>The forwarded payload\<close>


lemma generate_song_request:
  "snd (generate provider (song_request d t k c))
     = [\<lparr>p_lyrics = ''la la'', p_tags = ''pop'',
         p_duration_ms = stringify_int (math_min (int_or (parseInt d) 120000) 240000),
         p_temperature = stringify_num (num_or (parseFloat t) (Dec 1 0)),
         p_topk = stringify_int (int_or (parseInt k) 50),
         p_cfg_scale = stringify_num (num_or (parseFloat c) (Dec 15 (- 1)))\<rparr>]"
  by (simp add: generate_def song_request_def check_required_def trim_def js_space_def Let_def
        stringify_input_def split: fetch_result.splits option.splits)




lemma parseInt_overflow_example:
  "parseInt (JStr (''-1'' @ replicate 309 (CHR ''0''))) = IInf True"
proof -
  let ?ds = "''1'' @ replicate 309 (CHR ''0'')"
  have d: "?ds \<noteq> []" "\<forall>c \<in> set ?ds. is_digit c"
    by (auto simp: is_digit_def)
  have v: "nat_of_digits ?ds = 10 ^ 309"
    unfolding nat_of_digits_zeros by (simp add: nat_of_digits_def digit_val_def)
  have "parseInt_math (CHR ''-'' # ?ds) = Some (- (10 ^ 309))"
    unfolding parseInt_math_digits(2)[OF d] v by simp
  moreover have "round_int (- (10 ^ 309)) = IInf True"
    using round_int_overflow[of "- (10 ^ 309)"] by simp
  ultimately show ?thesis
    by (simp add: parseInt_def parseInt_str_def)
qed




text \<open>
  Nor is the forwarded value always an integer: a digit string below the range of a
  double parses to \<^verbatim>\<open>-Infinity\<close>, which passes \<^verbatim>\<open>Math.min\<close> and is serialised as \<^verbatim>\<open>null\<close>.
\<close>

lemma duration_overflow_example:
  "snd (generate (\<lambda>p. Fetch_Rejects)
          (song_request (JStr (''-1'' @ replicate 309 (CHR ''0''))) JUndefined JUndefined
             JUndefined))
     = [\<lparr>p_lyrics = ''la la'', p_tags = ''pop'', p_duration_ms = None,
         p_temperature = Some (Dec 1 0), p_topk = Some 50, p_cfg_scale = Some (Dec 15 (- 1))\<rparr>]"
  unfolding generate_song_request parseInt_overflow_example
  by (simp add: parseFloat_non_numeric parseInt_non_numeric num_or_def)




text \<open>
  The magnitude bound on \<^verbatim>\<open>topk\<close> is needed: \<open>10 ^ 21\<close> is printed as \<^verbatim>\<open>1e+21\<close>, of which
  \<^verbatim>\<open>parseInt\<close> reads the 1.
\<close>

lemma topk_exponent_example:
  "snd (generate (\<lambda>p. Fetch_Rejects)
          (song_request JUndefined JUndefined (JNum (Dec 1 21)) JUndefined))
     = [\<lparr>p_lyrics = ''la la'', p_tags = ''pop'', p_duration_ms = Some 120000,
         p_temperature = Some (Dec 1 0), p_topk = Some 1, p_cfg_scale = Some (Dec 15 (- 1))\<rparr>]"
proof -
  have "parseInt_math (to_string (JNum (Dec 1 21))) = Some 1"
    by (simp add: parseInt_math_def unsigned_to_string_def digits_of_nat.simps
        digit_char_def js_space_def is_digit_def nat_of_digits_def digit_val_def)
  then have "parseInt (JNum (Dec 1 21)) = IFin 1"
    by (simp add: parseInt_def parseInt_str_def round_int_exact)
  then show ?thesis
    by (simp add: generate_song_request parseFloat_non_numeric parseInt_non_numeric num_or_def)
qed

end
